theory Spec2Isabelle
  imports Main
begin

section \<open>Data model\<close>

text \<open>
  The client for the PostgREST HTTP API lives in three source files:
  \<^verbatim>\<open>_sync/client.py\<close>, \<^verbatim>\<open>_async/client.py\<close> and
  \<^verbatim>\<open>_sync/request_builder.py\<close>. Transport sessions are mutable objects that several
  builders may reference, so they live in an explicit store and are named by their
  address. The header mapping of a session is a mutable object of its own. Builders and
  clients never assign to their own attributes after construction (no method of the three
  files contains an assignment to \<^verbatim>\<open>self.x\<close> outside \<^verbatim>\<open>__init__\<close>), so they
  are plain values.
\<close>

subsection \<open>JSON values, errors\<close>

datatype json =
    JNull
  | JBool bool
  | JNum int
  | JStr string
  | JArr "json list"
  | JObj "(string \<times> json) list"

text \<open>
  Exceptions as values. \<^verbatim>\<open>APIError(r.json())\<close> carries the decoded body it was built
  from. \<^verbatim>\<open>json.JSONDecodeError\<close> and pydantic's \<^verbatim>\<open>ValidationError\<close> are subclasses
  of \<^verbatim>\<open>ValueError\<close>, which matters for the \<^verbatim>\<open>except ValueError\<close> clause of
  \<^verbatim>\<open>execute\<close>: it catches all three.
\<close>

datatype error =
    ValueError string
  | JSONDecodeError
  | ValidationError string
  | APIError json
  | TypeError
  | TransportError string
  | OtherError string

fun is_ValueError :: "error \<Rightarrow> bool" where
  "is_ValueError (ValueError _) = True"
| "is_ValueError JSONDecodeError = True"
| "is_ValueError (ValidationError _) = True"
| "is_ValueError _ = False"

subsection \<open>Sessions and the store\<close>

datatype session_class = SyncClient | AsyncClient

text \<open>
  \<^verbatim>\<open>timeout: Union[int, float, Timeout]\<close>: the value is only ever passed on, never
  inspected; a whole number of seconds or a reference to a \<^verbatim>\<open>Timeout\<close> object.
\<close>

datatype timeout = Seconds int | TimeoutObject nat

record session =
  kind :: session_class
  base_url :: string
  headers :: nat                        \<comment> \<open>address of the header mapping\<close>
  params :: "(string \<times> string) list"
  timeout :: timeout
  auth :: "nat option"                  \<comment> \<open>reference to an auth object, or \<^verbatim>\<open>None\<close>\<close>

record heap =
  dicts :: "(string \<rightharpoonup> string) list"
  sessions :: "session list"

text \<open>The header mapping a session currently holds.\<close>

definition headers_of :: "heap \<Rightarrow> nat \<Rightarrow> (string \<rightharpoonup> string)" where
  "headers_of h s = dicts h ! headers (sessions h ! s)"

text \<open>
  References in Python never dangle. In the store this is: the address of a session is
  below the number of sessions, and so is the address of its header mapping.
\<close>

definition valid_session :: "heap \<Rightarrow> nat \<Rightarrow> bool" where
  "valid_session h s = (s < length (sessions h) \<and> headers (sessions h ! s) < length (dicts h))"

text \<open>\<^verbatim>\<open>dict(items)\<close>: a new mapping object with the given content.\<close>

definition new_dict :: "heap \<Rightarrow> (string \<rightharpoonup> string) \<Rightarrow> heap \<times> nat" where
  "new_dict h m = (h\<lparr>dicts := dicts h @ [m]\<rparr>, length (dicts h))"

text \<open>
  Modelled from the spec: \<^verbatim>\<open>utils.SyncClient\<close> and \<^verbatim>\<open>utils.AsyncClient\<close> are not
  among the source files. The spec describes the transport session as the collaborator
  that can "hold default headers/timeout/auth for a base URL". The constructor called by
  \<^verbatim>\<open>create_session\<close> makes a new session object with the base URL, header mapping and
  timeout it is given, no query parameters and no auth.
\<close>

definition new_session ::
  "session_class \<Rightarrow> heap \<Rightarrow> string \<Rightarrow> nat \<Rightarrow> timeout \<Rightarrow> heap \<times> nat" where
  "new_session k h url hs t =
     (h\<lparr>sessions := sessions h @
          [\<lparr>kind = k, base_url = url, headers = hs, params = [], timeout = t, auth = None\<rparr>]\<rparr>,
      length (sessions h))"

text \<open>\<^verbatim>\<open>session.auth = a\<close>\<close>

definition set_auth :: "heap \<Rightarrow> nat \<Rightarrow> nat option \<Rightarrow> heap" where
  "set_auth h s a = h\<lparr>sessions := (sessions h)[s := (sessions h ! s)\<lparr>auth := a\<rparr>]\<rparr>"

text \<open>\<^verbatim>\<open>session.headers[k] = v\<close>\<close>

definition set_header :: "heap \<Rightarrow> nat \<Rightarrow> string \<Rightarrow> string \<Rightarrow> heap" where
  "set_header h s k v =
     h\<lparr>dicts := (dicts h)[headers (sessions h ! s) := (headers_of h s)(k \<mapsto> v)]\<rparr>"

text \<open>
  \<^verbatim>\<open>session.params = session.params.set(k, v)\<close>: the entry for \<open>k\<close> is replaced, at the
  end of the ordered parameter collection.
\<close>

definition set_param :: "heap \<Rightarrow> nat \<Rightarrow> string \<Rightarrow> string \<Rightarrow> heap" where
  "set_param h s k v =
     h\<lparr>sessions := (sessions h)[s := (sessions h ! s)
          \<lparr>params := filter (\<lambda>kv. fst kv \<noteq> k) (params (sessions h ! s)) @ [(k, v)]\<rparr>]\<rparr>"

text \<open>\<^verbatim>\<open>session.params = session.params.add(k, v)\<close>: one more entry, duplicates kept.\<close>

definition add_param :: "heap \<Rightarrow> nat \<Rightarrow> string \<Rightarrow> string \<Rightarrow> heap" where
  "add_param h s k v =
     h\<lparr>sessions := (sessions h)[s := (sessions h ! s)
          \<lparr>params := params (sessions h ! s) @ [(k, v)]\<rparr>]\<rparr>"

subsection \<open>Clients and request builders\<close>

text \<open>
  \<^verbatim>\<open>BasePostgrestClient\<close> is not among the source files; the two clients use exactly one
  attribute of it, \<^verbatim>\<open>self.session\<close>.
\<close>

record postgrest_client =
  client_session :: nat

text \<open>
  The classes of \<^verbatim>\<open>_sync/request_builder.py\<close>, the two base classes they inherit from
  (\<^verbatim>\<open>base_request_builder.py\<close>, not among the source files) and the two builder classes
  the asynchronous client instantiates (\<^verbatim>\<open>_async/request_builder.py\<close>, not among the
  source files either).
\<close>

datatype py_class =
    BaseFilterRequestBuilder
  | BaseSelectRequestBuilder
  | SyncQueryRequestBuilder
  | SyncFilterRequestBuilder
  | SyncSelectRequestBuilder
  | SyncRequestBuilder
  | SyncModelQueryRequestBuilder
  | SyncModelFilterRequestBuilder
  | SyncModelSelectRequestBuilder
  | SyncModelRequestBuilder
  | AsyncRequestBuilder
  | AsyncModelRequestBuilder

text \<open>\<^verbatim>\<open>SyncRequestBuilder.__init__(self, session, path)\<close>\<close>

record request_builder =
  rb_class :: py_class
  rb_session :: nat
  rb_path :: string

text \<open>
  A pydantic model class, as far as \<^verbatim>\<open>from_model\<close> and row validation look at it: its
  \<^verbatim>\<open>__name__\<close>, the class variable \<^verbatim>\<open>__table_name__\<close> when it is set, and the names of
  its required fields.
\<close>

record model_class =
  model_name :: string
  model_table_name :: "string option"
  model_fields :: "string list"

section \<open>The clients\<close>

subsection \<open>\<^verbatim>\<open>_sync/client.py\<close>\<close>

definition SyncPostgrestClient_create_session ::
  "heap \<Rightarrow> string \<Rightarrow> nat \<Rightarrow> timeout \<Rightarrow> heap \<times> nat" where
  "SyncPostgrestClient_create_session h url hs t = new_session SyncClient h url hs t"

text \<open>
  \<^verbatim>\<open>
  def _pre_table_op(self, table_name):
      base_url = str(self.session.base_url)
      headers = dict(self.session.headers.items())
      session = self.create_session(base_url, headers, self.session.timeout)
      session.auth = self.session.auth
      return session, f"/{table_name}"
  \<close>
\<close>

definition SyncPostgrestClient_pre_table_op ::
  "postgrest_client \<Rightarrow> heap \<Rightarrow> string \<Rightarrow> heap \<times> nat \<times> string" where
  "SyncPostgrestClient_pre_table_op self h table_name =
     (let url = base_url (sessions h ! client_session self);
          (h1, hs) = new_dict h (headers_of h (client_session self));
          (h2, s) = SyncPostgrestClient_create_session h1 url hs
                      (timeout (sessions h1 ! client_session self));
          h3 = set_auth h2 s (auth (sessions h2 ! client_session self))
      in (h3, s, ''/'' @ table_name))"

definition SyncPostgrestClient_from ::
  "postgrest_client \<Rightarrow> heap \<Rightarrow> string \<Rightarrow> heap \<times> request_builder" where
  "SyncPostgrestClient_from self h table =
     (let (h', s, path) = SyncPostgrestClient_pre_table_op self h table
      in (h', \<lparr>rb_class = SyncRequestBuilder, rb_session = s, rb_path = path\<rparr>))"

definition SyncPostgrestClient_table ::
  "postgrest_client \<Rightarrow> heap \<Rightarrow> string \<Rightarrow> heap \<times> request_builder" where
  "SyncPostgrestClient_table self h table = SyncPostgrestClient_from self h table"

text \<open>\<^verbatim>\<open>getattr(model, "__table_name__", model.__name__)\<close>\<close>

definition table_name_of :: "model_class \<Rightarrow> string" where
  "table_name_of model =
     (case model_table_name model of Some t \<Rightarrow> t | None \<Rightarrow> model_name model)"

definition SyncPostgrestClient_from_model ::
  "postgrest_client \<Rightarrow> heap \<Rightarrow> model_class \<Rightarrow> heap \<times> request_builder" where
  "SyncPostgrestClient_from_model self h model =
     (let table_name = table_name_of model;
          (h', s, path) = SyncPostgrestClient_pre_table_op self h table_name
      in (h', \<lparr>rb_class = SyncModelRequestBuilder, rb_session = s, rb_path = path\<rparr>))"

subsection \<open>\<^verbatim>\<open>_async/client.py\<close>\<close>

definition AsyncPostgrestClient_create_session ::
  "heap \<Rightarrow> string \<Rightarrow> nat \<Rightarrow> timeout \<Rightarrow> heap \<times> nat" where
  "AsyncPostgrestClient_create_session h url hs t = new_session AsyncClient h url hs t"

definition AsyncPostgrestClient_pre_table_op ::
  "postgrest_client \<Rightarrow> heap \<Rightarrow> string \<Rightarrow> heap \<times> nat \<times> string" where
  "AsyncPostgrestClient_pre_table_op self h table_name =
     (let url = base_url (sessions h ! client_session self);
          (h1, hs) = new_dict h (headers_of h (client_session self));
          (h2, s) = AsyncPostgrestClient_create_session h1 url hs
                      (timeout (sessions h1 ! client_session self));
          h3 = set_auth h2 s (auth (sessions h2 ! client_session self))
      in (h3, s, ''/'' @ table_name))"

text \<open>
  The asynchronous \<^verbatim>\<open>from_\<close> drops the path \<^verbatim>\<open>_pre_table_op\<close> returns and formats
  \<^verbatim>\<open>f"/{table}"\<close> again.
\<close>

definition AsyncPostgrestClient_from ::
  "postgrest_client \<Rightarrow> heap \<Rightarrow> string \<Rightarrow> heap \<times> request_builder" where
  "AsyncPostgrestClient_from self h table =
     (let (h', s, path) = AsyncPostgrestClient_pre_table_op self h table
      in (h', \<lparr>rb_class = AsyncRequestBuilder, rb_session = s, rb_path = ''/'' @ table\<rparr>))"

definition AsyncPostgrestClient_table ::
  "postgrest_client \<Rightarrow> heap \<Rightarrow> string \<Rightarrow> heap \<times> request_builder" where
  "AsyncPostgrestClient_table self h table = AsyncPostgrestClient_from self h table"

definition AsyncPostgrestClient_from_model ::
  "postgrest_client \<Rightarrow> heap \<Rightarrow> model_class \<Rightarrow> heap \<times> request_builder" where
  "AsyncPostgrestClient_from_model self h model =
     (let table_name = table_name_of model;
          (h', s, path) = AsyncPostgrestClient_pre_table_op self h table_name
      in (h', \<lparr>rb_class = AsyncModelRequestBuilder, rb_session = s, rb_path = path\<rparr>))"


section \<open>The transport\<close>

text \<open>
  The HTTP transport is an external collaborator. A response is what the builder reads of
  it: the status, the headers, the body text, and what \<^verbatim>\<open>r.json()\<close> gives for that
  body (\<open>None\<close> when the body is not JSON, where \<^verbatim>\<open>r.json()\<close> raises).
\<close>

record response =
  status_code :: int
  response_headers :: "(string \<times> string) list"
  text_body :: string
  decoded :: "json option"

definition response_json :: "response \<Rightarrow> error + json" where
  "response_json r = (case decoded r of None \<Rightarrow> Inl JSONDecodeError | Some j \<Rightarrow> Inr j)"

text \<open>
  One call of \<^verbatim>\<open>session.request(method, path, json=json)\<close>: the arguments, the session
  it was made on, and that session's configuration and header mapping at the time.
\<close>

record call =
  call_method :: string
  call_path :: string
  call_json :: json
  call_session :: nat
  call_config :: session
  call_headers :: "string \<rightharpoonup> string"

text \<open>The world: the store and the requests handed to the transport so far, oldest first.\<close>

record world =
  store :: heap
  sent :: "call list"

text \<open>
  The transport answers a call, knowing the calls before it, with a response or an
  exception of its own.
\<close>

type_synonym transport = "call list \<Rightarrow> call \<Rightarrow> error + response"

definition session_request ::
  "transport \<Rightarrow> world \<Rightarrow> nat \<Rightarrow> string \<Rightarrow> string \<Rightarrow> json \<Rightarrow> world \<times> (error + response)" where
  "session_request tr w s method path body =
     (let c = \<lparr>call_method = method, call_path = path, call_json = body, call_session = s,
               call_config = sessions (store w) ! s, call_headers = headers_of (store w) s\<rparr>
      in (w\<lparr>sent := sent w @ [c]\<rparr>, tr (sent w) c))"

text \<open>\<^verbatim>\<open>session.post(path, json=params)\<close> is a request with method POST.\<close>

definition session_post ::
  "transport \<Rightarrow> world \<Rightarrow> nat \<Rightarrow> string \<Rightarrow> json \<Rightarrow> world \<times> (error + response)" where
  "session_post tr w s path body = session_request tr w s ''POST'' path body"

subsection \<open>Stored procedure calls\<close>

text \<open>
  \<^verbatim>\<open>
  def rpc(self, func, params):
      path = f"/rpc/{func}"
      return self.session.post(path, json=params)
  \<close>
  The asynchronous client awaits the same call.
\<close>

definition SyncPostgrestClient_rpc ::
  "transport \<Rightarrow> postgrest_client \<Rightarrow> world \<Rightarrow> string \<Rightarrow> json \<Rightarrow> world \<times> (error + response)" where
  "SyncPostgrestClient_rpc tr self w func params' =
     (let path = ''/rpc/'' @ func in session_post tr w (client_session self) path params')"

definition AsyncPostgrestClient_rpc ::
  "transport \<Rightarrow> postgrest_client \<Rightarrow> world \<Rightarrow> string \<Rightarrow> json \<Rightarrow> world \<times> (error + response)" where
  "AsyncPostgrestClient_rpc tr self w func params' =
     (let path = ''/rpc/'' @ func in session_post tr w (client_session self) path params')"

section \<open>The request builders\<close>

subsection \<open>Classes and their methods\<close>

text \<open>The base classes of each class, in the order of its \<^verbatim>\<open>class\<close> statement.\<close>

fun bases :: "py_class \<Rightarrow> py_class list" where
  "bases SyncFilterRequestBuilder = [BaseFilterRequestBuilder, SyncQueryRequestBuilder]"
| "bases SyncSelectRequestBuilder = [BaseSelectRequestBuilder, SyncQueryRequestBuilder]"
| "bases SyncModelQueryRequestBuilder = [SyncQueryRequestBuilder]"
| "bases SyncModelFilterRequestBuilder = [BaseFilterRequestBuilder, SyncModelQueryRequestBuilder]"
| "bases SyncModelSelectRequestBuilder = [BaseSelectRequestBuilder, SyncModelQueryRequestBuilder]"
| "bases SyncModelRequestBuilder = [SyncRequestBuilder]"
| "bases _ = []"

text \<open>
  The class itself and everything it inherits from. No chain of \<open>bases\<close> is longer than
  two steps (\<^verbatim>\<open>_SyncModelFilterRequestBuilder\<close>, \<^verbatim>\<open>_SyncModelQueryRequestBuilder\<close>,
  \<^verbatim>\<open>SyncQueryRequestBuilder\<close>).
\<close>

definition ancestors :: "py_class \<Rightarrow> py_class list" where
  "ancestors c = c # bases c @ concat (map bases (bases c))"

text \<open>
  The public methods a class body defines. The bodies of the two base classes are not
  among the source files: the names of the methods their instances have, defined or
  inherited, are the parameters \<open>F\<close> and \<open>S\<close>.
\<close>

fun own_methods :: "string list \<Rightarrow> string list \<Rightarrow> py_class \<Rightarrow> string list" where
  "own_methods F S BaseFilterRequestBuilder = F"
| "own_methods F S BaseSelectRequestBuilder = S"
| "own_methods F S SyncQueryRequestBuilder = [''execute'']"
| "own_methods F S SyncRequestBuilder =
     [''select'', ''insert'', ''upsert'', ''update'', ''delete'']"
| "own_methods F S SyncModelQueryRequestBuilder = [''execute'']"
| "own_methods F S SyncModelRequestBuilder =
     [''select'', ''insert'', ''upsert'', ''update'', ''delete'']"
| "own_methods F S _ = []"

text \<open>The methods that can be called on an instance: attribute lookup along the ancestors.\<close>

definition methods :: "string list \<Rightarrow> string list \<Rightarrow> py_class \<Rightarrow> string set" where
  "methods F S c = set (concat (map (own_methods F S) (ancestors c)))"

text \<open>
  The states of the builder state machine that accept filter, order and range calls are
  the instances of classes that inherit the filter or the select base class.
\<close>

definition filterable :: "py_class \<Rightarrow> bool" where
  "filterable c =
     (BaseFilterRequestBuilder \<in> set (ancestors c) \<or> BaseSelectRequestBuilder \<in> set (ancestors c))"

subsection \<open>Pending queries\<close>

text \<open>
  \<^verbatim>\<open>SyncQueryRequestBuilder.__init__(self, session, path, http_method, json)\<close>. The
  filter and select builders call the base class initialiser with the session and then
  this one with the same four arguments.
\<close>

record query_builder =
  qb_class :: py_class
  qb_session :: nat
  qb_path :: string
  qb_http_method :: string
  qb_json :: json

datatype CountMethod = exact | planned | estimated

datatype ReturnMethod = minimal | headers_only | representation

text \<open>
  The helpers \<^verbatim>\<open>pre_select\<close>, \<^verbatim>\<open>pre_insert\<close>, \<^verbatim>\<open>pre_upsert\<close>, \<^verbatim>\<open>pre_update\<close>
  and \<^verbatim>\<open>pre_delete\<close> come from \<^verbatim>\<open>base_request_builder.py\<close>, which is not among the
  source files. Each receives the session and the arguments of the operation and returns
  the HTTP method and the JSON body; whatever else it records, it records in the store.
  The operations take their helper as a parameter: a function on the store that returns
  the new store, the method and the body, or raises.
\<close>

type_synonym pre_result = "error + (heap \<times> string \<times> json)"

type_synonym pre_select_fn = "heap \<Rightarrow> nat \<Rightarrow> string list \<Rightarrow> CountMethod option \<Rightarrow> pre_result"

type_synonym pre_insert_fn =
  "heap \<Rightarrow> nat \<Rightarrow> json \<Rightarrow> CountMethod option \<Rightarrow> ReturnMethod \<Rightarrow> bool \<Rightarrow> pre_result"

type_synonym pre_update_fn =
  "heap \<Rightarrow> nat \<Rightarrow> json \<Rightarrow> CountMethod option \<Rightarrow> ReturnMethod \<Rightarrow> pre_result"

type_synonym pre_delete_fn = "heap \<Rightarrow> nat \<Rightarrow> CountMethod option \<Rightarrow> ReturnMethod \<Rightarrow> pre_result"

subsection \<open>\<^verbatim>\<open>SyncRequestBuilder\<close>\<close>

definition SyncRequestBuilder_select ::
  "pre_select_fn \<Rightarrow> request_builder \<Rightarrow> world \<Rightarrow> string list \<Rightarrow> CountMethod option
     \<Rightarrow> error + (world \<times> query_builder)" where
  "SyncRequestBuilder_select pre_select self w columns count =
     (case pre_select (store w) (rb_session self) columns count of
        Inl e \<Rightarrow> Inl e
      | Inr (h', method, body') \<Rightarrow>
          Inr (w\<lparr>store := h'\<rparr>,
               \<lparr>qb_class = SyncSelectRequestBuilder, qb_session = rb_session self,
                qb_path = rb_path self, qb_http_method = method, qb_json = body'\<rparr>))"

definition SyncRequestBuilder_insert ::
  "pre_insert_fn \<Rightarrow> request_builder \<Rightarrow> world \<Rightarrow> json \<Rightarrow> CountMethod option \<Rightarrow> ReturnMethod
     \<Rightarrow> bool \<Rightarrow> error + (world \<times> query_builder)" where
  "SyncRequestBuilder_insert pre_insert self w body count returning upsert =
     (case pre_insert (store w) (rb_session self) body count returning upsert of
        Inl e \<Rightarrow> Inl e
      | Inr (h', method, body') \<Rightarrow>
          Inr (w\<lparr>store := h'\<rparr>,
               \<lparr>qb_class = SyncQueryRequestBuilder, qb_session = rb_session self,
                qb_path = rb_path self, qb_http_method = method, qb_json = body'\<rparr>))"

definition SyncRequestBuilder_upsert ::
  "pre_insert_fn \<Rightarrow> request_builder \<Rightarrow> world \<Rightarrow> json \<Rightarrow> CountMethod option \<Rightarrow> ReturnMethod
     \<Rightarrow> bool \<Rightarrow> error + (world \<times> query_builder)" where
  "SyncRequestBuilder_upsert pre_upsert self w body count returning ignore_duplicates =
     (case pre_upsert (store w) (rb_session self) body count returning ignore_duplicates of
        Inl e \<Rightarrow> Inl e
      | Inr (h', method, body') \<Rightarrow>
          Inr (w\<lparr>store := h'\<rparr>,
               \<lparr>qb_class = SyncQueryRequestBuilder, qb_session = rb_session self,
                qb_path = rb_path self, qb_http_method = method, qb_json = body'\<rparr>))"

definition SyncRequestBuilder_update ::
  "pre_update_fn \<Rightarrow> request_builder \<Rightarrow> world \<Rightarrow> json \<Rightarrow> CountMethod option \<Rightarrow> ReturnMethod
     \<Rightarrow> error + (world \<times> query_builder)" where
  "SyncRequestBuilder_update pre_update self w body count returning =
     (case pre_update (store w) (rb_session self) body count returning of
        Inl e \<Rightarrow> Inl e
      | Inr (h', method, body') \<Rightarrow>
          Inr (w\<lparr>store := h'\<rparr>,
               \<lparr>qb_class = SyncFilterRequestBuilder, qb_session = rb_session self,
                qb_path = rb_path self, qb_http_method = method, qb_json = body'\<rparr>))"

definition SyncRequestBuilder_delete ::
  "pre_delete_fn \<Rightarrow> request_builder \<Rightarrow> world \<Rightarrow> CountMethod option \<Rightarrow> ReturnMethod
     \<Rightarrow> error + (world \<times> query_builder)" where
  "SyncRequestBuilder_delete pre_delete self w count returning =
     (case pre_delete (store w) (rb_session self) count returning of
        Inl e \<Rightarrow> Inl e
      | Inr (h', method, body') \<Rightarrow>
          Inr (w\<lparr>store := h'\<rparr>,
               \<lparr>qb_class = SyncFilterRequestBuilder, qb_session = rb_session self,
                qb_path = rb_path self, qb_http_method = method, qb_json = body'\<rparr>))"

subsection \<open>The typed builders\<close>

text \<open>
  "The following are replicas of the normal classes above."
  \<^verbatim>\<open>_SyncModelQueryRequestBuilder\<close> defines no initialiser: an instance is made by
  \<^verbatim>\<open>SyncQueryRequestBuilder.__init__\<close>. The typed filter and select builders define
  \<^verbatim>\<open>
  def __init__(self, session, path, http_method, json):
      BaseFilterRequestBuilder.__init__(self, session)
      _SyncModelQueryRequestBuilder[_T].__init__(self, session, path, http_method, json)
  \<close>
  (with \<^verbatim>\<open>BaseSelectRequestBuilder\<close> in the select builder). The subscripted class
  \<^verbatim>\<open>_SyncModelQueryRequestBuilder[_T]\<close> is an alias object of the \<^verbatim>\<open>typing\<close> module,
  and \<^verbatim>\<open>__init__\<close> looked up on it is the alias's own initialiser, which takes an origin
  and the type arguments. Called with five positional arguments it raises
  \<^verbatim>\<open>TypeError\<close>: no typed filter or select builder is ever constructed.
\<close>

definition SyncModelQueryRequestBuilder_init ::
  "nat \<Rightarrow> string \<Rightarrow> string \<Rightarrow> json \<Rightarrow> error + query_builder" where
  "SyncModelQueryRequestBuilder_init s path method body =
     Inr \<lparr>qb_class = SyncModelQueryRequestBuilder, qb_session = s, qb_path = path,
          qb_http_method = method, qb_json = body\<rparr>"

definition SyncModelFilterRequestBuilder_init ::
  "nat \<Rightarrow> string \<Rightarrow> string \<Rightarrow> json \<Rightarrow> error + query_builder" where
  "SyncModelFilterRequestBuilder_init s path method body = Inl TypeError"

definition SyncModelSelectRequestBuilder_init ::
  "nat \<Rightarrow> string \<Rightarrow> string \<Rightarrow> json \<Rightarrow> error + query_builder" where
  "SyncModelSelectRequestBuilder_init s path method body = Inl TypeError"

subsection \<open>\<^verbatim>\<open>_SyncModelRequestBuilder\<close>\<close>

text \<open>
  The same five operations: the helper first, then the construction of the typed builder.
  \<^verbatim>\<open>
      method, json = pre_select(self.session, *columns, count=count)
      return _SyncModelSelectRequestBuilder[_T](self.session, self.path, method, json)
  \<close>
\<close>

definition SyncModelRequestBuilder_select ::
  "pre_select_fn \<Rightarrow> request_builder \<Rightarrow> world \<Rightarrow> string list \<Rightarrow> CountMethod option
     \<Rightarrow> error + (world \<times> query_builder)" where
  "SyncModelRequestBuilder_select pre_select self w columns count =
     (case pre_select (store w) (rb_session self) columns count of
        Inl e \<Rightarrow> Inl e
      | Inr (h', method, body') \<Rightarrow>
          (case SyncModelSelectRequestBuilder_init (rb_session self) (rb_path self) method body' of
             Inl e \<Rightarrow> Inl e
           | Inr q \<Rightarrow> Inr (w\<lparr>store := h'\<rparr>, q)))"

definition SyncModelRequestBuilder_insert ::
  "pre_insert_fn \<Rightarrow> request_builder \<Rightarrow> world \<Rightarrow> json \<Rightarrow> CountMethod option \<Rightarrow> ReturnMethod
     \<Rightarrow> bool \<Rightarrow> error + (world \<times> query_builder)" where
  "SyncModelRequestBuilder_insert pre_insert self w body count returning upsert =
     (case pre_insert (store w) (rb_session self) body count returning upsert of
        Inl e \<Rightarrow> Inl e
      | Inr (h', method, body') \<Rightarrow>
          (case SyncModelQueryRequestBuilder_init (rb_session self) (rb_path self) method body' of
             Inl e \<Rightarrow> Inl e
           | Inr q \<Rightarrow> Inr (w\<lparr>store := h'\<rparr>, q)))"

definition SyncModelRequestBuilder_upsert ::
  "pre_insert_fn \<Rightarrow> request_builder \<Rightarrow> world \<Rightarrow> json \<Rightarrow> CountMethod option \<Rightarrow> ReturnMethod
     \<Rightarrow> bool \<Rightarrow> error + (world \<times> query_builder)" where
  "SyncModelRequestBuilder_upsert pre_upsert self w body count returning ignore_duplicates =
     (case pre_upsert (store w) (rb_session self) body count returning ignore_duplicates of
        Inl e \<Rightarrow> Inl e
      | Inr (h', method, body') \<Rightarrow>
          (case SyncModelQueryRequestBuilder_init (rb_session self) (rb_path self) method body' of
             Inl e \<Rightarrow> Inl e
           | Inr q \<Rightarrow> Inr (w\<lparr>store := h'\<rparr>, q)))"

definition SyncModelRequestBuilder_update ::
  "pre_update_fn \<Rightarrow> request_builder \<Rightarrow> world \<Rightarrow> json \<Rightarrow> CountMethod option \<Rightarrow> ReturnMethod
     \<Rightarrow> error + (world \<times> query_builder)" where
  "SyncModelRequestBuilder_update pre_update self w body count returning =
     (case pre_update (store w) (rb_session self) body count returning of
        Inl e \<Rightarrow> Inl e
      | Inr (h', method, body') \<Rightarrow>
          (case SyncModelFilterRequestBuilder_init (rb_session self) (rb_path self) method body' of
             Inl e \<Rightarrow> Inl e
           | Inr q \<Rightarrow> Inr (w\<lparr>store := h'\<rparr>, q)))"

definition SyncModelRequestBuilder_delete ::
  "pre_delete_fn \<Rightarrow> request_builder \<Rightarrow> world \<Rightarrow> CountMethod option \<Rightarrow> ReturnMethod
     \<Rightarrow> error + (world \<times> query_builder)" where
  "SyncModelRequestBuilder_delete pre_delete self w count returning =
     (case pre_delete (store w) (rb_session self) count returning of
        Inl e \<Rightarrow> Inl e
      | Inr (h', method, body') \<Rightarrow>
          (case SyncModelFilterRequestBuilder_init (rb_session self) (rb_path self) method body' of
             Inl e \<Rightarrow> Inl e
           | Inr q \<Rightarrow> Inr (w\<lparr>store := h'\<rparr>, q)))"

subsection \<open>\<^verbatim>\<open>execute\<close>, untyped and typed\<close>

text \<open>
  The type argument of \<^verbatim>\<open>APIResponse[...]\<close>: the default \<^verbatim>\<open>Dict[str, Any]\<close>, a type
  variable with its bound, or a model class.
\<close>

datatype model_type = DictStrAny | TypeVar string model_class | Model model_class

text \<open>pydantic's \<^verbatim>\<open>BaseModel\<close>, the bound of \<^verbatim>\<open>_T\<close>: a model class without fields.\<close>

definition BaseModel :: model_class where
  "BaseModel = \<lparr>model_name = ''BaseModel'', model_table_name = None, model_fields = []\<rparr>"

text \<open>
  \<^verbatim>\<open>
  def execute(self, *, model=Dict[str, Any]):
      r = self.session.request(self.http_method, self.path, json=self.json)
      try:
          return APIResponse[model].from_http_request_response(r)
      except ValueError as e:
          raise APIError(r.json()) from e
  \<close>
  \<^verbatim>\<open>APIResponse\<close> comes from \<^verbatim>\<open>base_request_builder.py\<close>: its class method is the
  parameter \<open>from_response\<close>. An exception of the transport leaves \<^verbatim>\<open>execute\<close>
  unchanged; so does one of \<^verbatim>\<open>from_http_request_response\<close> that is not a
  \<^verbatim>\<open>ValueError\<close>, and so does one that \<^verbatim>\<open>r.json()\<close> raises inside the handler.
\<close>

definition SyncQueryRequestBuilder_execute ::
  "transport \<Rightarrow> (model_type \<Rightarrow> response \<Rightarrow> error + 'a) \<Rightarrow> query_builder \<Rightarrow> world
     \<Rightarrow> model_type \<Rightarrow> world \<times> (error + 'a)" where
  "SyncQueryRequestBuilder_execute tr from_response self w model =
     (let (w', rr) = session_request tr w (qb_session self) (qb_http_method self)
                       (qb_path self) (qb_json self)
      in case rr of
           Inl e \<Rightarrow> (w', Inl e)
         | Inr r \<Rightarrow>
             (case from_response model r of
                Inr a \<Rightarrow> (w', Inr a)
              | Inl e \<Rightarrow>
                  if is_ValueError e then
                    (case response_json r of
                       Inl e' \<Rightarrow> (w', Inl e')
                     | Inr j \<Rightarrow> (w', Inl (APIError j)))
                  else (w', Inl e)))"

text \<open>
  \<^verbatim>\<open>
  _T = TypeVar("_T", bound=BaseModel)

  class _SyncModelQueryRequestBuilder(Generic[_T], SyncQueryRequestBuilder):
      def execute(self):
          r = self.session.request(self.http_method, self.path, json=self.json)
          try:
              return APIResponse[_T].from_http_request_response(r)
          except ValueError as e:
              raise APIError(r.json()) from e
  \<close>
  The name \<^verbatim>\<open>_T\<close> in the method body is the module's type variable object: Python does
  not substitute the type argument of \<^verbatim>\<open>_SyncModelQueryRequestBuilder[M]\<close> for it, and
  the builder has no attribute that holds \<^verbatim>\<open>M\<close>.
\<close>

definition SyncModelQueryRequestBuilder_execute ::
  "transport \<Rightarrow> (model_type \<Rightarrow> response \<Rightarrow> error + 'a) \<Rightarrow> query_builder \<Rightarrow> world
     \<Rightarrow> world \<times> (error + 'a)" where
  "SyncModelQueryRequestBuilder_execute tr from_response self w =
     (let (w', rr) = session_request tr w (qb_session self) (qb_http_method self)
                       (qb_path self) (qb_json self)
      in case rr of
           Inl e \<Rightarrow> (w', Inl e)
         | Inr r \<Rightarrow>
             (case from_response (TypeVar ''_T'' BaseModel) r of
                Inr a \<Rightarrow> (w', Inr a)
              | Inl e \<Rightarrow>
                  if is_ValueError e then
                    (case response_json r of
                       Inl e' \<Rightarrow> (w', Inl e')
                     | Inr j \<Rightarrow> (w', Inl (APIError j)))
                  else (w', Inl e)))"


section \<open>The parts that are not among the source files\<close>

subsection \<open>The helpers of the five operations\<close>

text \<open>\<^verbatim>\<open>sep.join(xs)\<close>\<close>

fun join :: "string \<Rightarrow> string list \<Rightarrow> string" where
  "join sep [] = []"
| "join sep [x] = x"
| "join sep (x # y # ys) = x @ sep @ join sep (y # ys)"

fun count_directive :: "CountMethod \<Rightarrow> string" where
  "count_directive exact = ''count=exact''"
| "count_directive planned = ''count=planned''"
| "count_directive estimated = ''count=estimated''"

fun return_directive :: "ReturnMethod \<Rightarrow> string" where
  "return_directive minimal = ''return=minimal''"
| "return_directive headers_only = ''return=headers-only''"
| "return_directive representation = ''return=representation''"

text \<open>
  Modelled from the spec: the \<^verbatim>\<open>Prefer\<close> header of a mutation, which
  \<^verbatim>\<open>base_request_builder.py\<close> composes. "Produce the Prefer header as a comma-joined set
  of directives: return=minimal|headers-only|representation, count=exact|planned|estimated
  (omitted if no count requested), resolution=merge-duplicates|ignore-duplicates (only for
  upsert)"; the order is the one of the spec's example
  \<^verbatim>\<open>Prefer: return=minimal,resolution=merge-duplicates\<close>.
\<close>

definition prefer_header :: "ReturnMethod \<Rightarrow> CountMethod option \<Rightarrow> string option \<Rightarrow> string" where
  "prefer_header returning count resolution =
     join '','' ([return_directive returning]
                @ (case count of None \<Rightarrow> [] | Some c \<Rightarrow> [count_directive c])
                @ (case resolution of None \<Rightarrow> [] | Some r \<Rightarrow> [''resolution='' @ r]))"

text \<open>
  Modelled from the spec: \<^verbatim>\<open>pre_select\<close> of \<^verbatim>\<open>base_request_builder.py\<close>. "The HTTP
  method is fixed per operation: select\<rightarrow>GET"; the columns become the query parameter
  \<^verbatim>\<open>select=a,b\<close>; a requested count becomes the \<^verbatim>\<open>Prefer\<close> header; the request body
  is "absent for select/delete". Exclusivity of the operations is "structural, not a
  runtime check", so the helper does not raise.
\<close>

definition pre_select :: pre_select_fn where
  "pre_select h s columns count =
     (let h1 = set_param h s ''select'' (join '','' columns);
          h2 = (case count of
                  None \<Rightarrow> h1
                | Some c \<Rightarrow> set_header h1 s ''Prefer'' (count_directive c))
      in Inr (h2, ''GET'', JNull))"

text \<open>
  Modelled from the spec: \<^verbatim>\<open>pre_insert\<close> of \<^verbatim>\<open>base_request_builder.py\<close>.
  "insert\<rightarrow>POST"; \<^verbatim>\<open>insert({...}, upsert=True, returning=minimal)\<close> "produces a POST with
  Prefer: return=minimal,resolution=merge-duplicates and no count directive when count is
  unspecified".
\<close>

definition pre_insert :: pre_insert_fn where
  "pre_insert h s body count returning upsert =
     Inr (set_header h s ''Prefer''
            (prefer_header returning count (if upsert then Some ''merge-duplicates'' else None)),
          ''POST'', body)"

text \<open>
  Modelled from the spec: \<^verbatim>\<open>pre_upsert\<close> of \<^verbatim>\<open>base_request_builder.py\<close>.
  "upsert\<rightarrow>POST (with resolution directive distinguishing merge vs ignore)".
\<close>

definition pre_upsert :: pre_insert_fn where
  "pre_upsert h s body count returning ignore_duplicates =
     Inr (set_header h s ''Prefer''
            (prefer_header returning count
               (Some (if ignore_duplicates then ''ignore-duplicates'' else ''merge-duplicates''))),
          ''POST'', body)"

text \<open>
  Modelled from the spec: \<^verbatim>\<open>pre_update\<close> of \<^verbatim>\<open>base_request_builder.py\<close>.
  "update\<rightarrow>PATCH".
\<close>

definition pre_update :: pre_update_fn where
  "pre_update h s body count returning =
     Inr (set_header h s ''Prefer'' (prefer_header returning count None), ''PATCH'', body)"

text \<open>
  Modelled from the spec: \<^verbatim>\<open>pre_delete\<close> of \<^verbatim>\<open>base_request_builder.py\<close>.
  "delete\<rightarrow>DELETE"; the request body is "absent for select/delete".
\<close>

definition pre_delete :: pre_delete_fn where
  "pre_delete h s count returning =
     Inr (set_header h s ''Prefer'' (prefer_header returning count None), ''DELETE'', JNull)"

subsection \<open>The response classifier\<close>

text \<open>
  Modelled from the spec: \<^verbatim>\<open>APIResponse\<close> of \<^verbatim>\<open>base_request_builder.py\<close>.
  "API Response: {data: T | sequence of T, count: optional integer, status: integer}".
\<close>

record api_response =
  data :: json
  count :: "nat option"
  status :: int

text \<open>
  Modelled from the spec: validation of a row against the type argument. "Optionally
  validate each row against a caller-supplied schema"; the untyped path is "a permissive
  dynamic-record type". A model class asks for an object that has each of its fields. A
  type variable is not a schema a caller supplied; pydantic validates against its bound, a
  model class.
\<close>

definition fields_present :: "model_class \<Rightarrow> json \<Rightarrow> bool" where
  "fields_present m j =
     (case j of
        JObj kvs \<Rightarrow> list_all (\<lambda>f. f \<in> set (map fst kvs)) (model_fields m)
      | _ \<Rightarrow> False)"

fun row_valid :: "model_type \<Rightarrow> json \<Rightarrow> bool" where
  "row_valid (Model m) j = fields_present m j"
| "row_valid (TypeVar n b) j = fields_present b j"
| "row_valid DictStrAny j = True"

fun rows_valid :: "model_type \<Rightarrow> json \<Rightarrow> bool" where
  "rows_valid model (JArr rows) = list_all (row_valid model) rows"
| "rows_valid model j = row_valid model j"

text \<open>
  Modelled from the spec: count extraction. "Parse Content-Range: <start>-<end>/<total>;
  total of * means count not computed \<rightarrow> result count is absent, not zero."
\<close>

definition is_digit :: "char \<Rightarrow> bool" where
  "is_digit c = (c \<in> set ''0123456789'')"

definition nat_of_digits :: "string \<Rightarrow> nat" where
  "nat_of_digits ds = foldl (\<lambda>n c. 10 * n + (of_char c - 48)) 0 ds"

definition content_range_total :: "(string \<times> string) list \<Rightarrow> nat option" where
  "content_range_total hs =
     (case map_of hs ''Content-Range'' of
        None \<Rightarrow> None
      | Some v \<Rightarrow>
          (let total = drop 1 (dropWhile (\<lambda>c. c \<noteq> CHR ''/'') v)
           in if total \<noteq> [] \<and> list_all is_digit total then Some (nat_of_digits total)
              else None))"

text \<open>
  Modelled from the spec: \<^verbatim>\<open>APIResponse[model].from_http_request_response\<close> of
  \<^verbatim>\<open>base_request_builder.py\<close>. "Given {status, headers, body}, attempt to decode body as
  JSON. If decoding fails, or if status \<ge> 400, construct an API Error": the class method
  raises the \<^verbatim>\<open>ValueError\<close> that \<^verbatim>\<open>execute\<close> turns into the API error. "A row failing
  validation is a hard error for the whole response": the class method raises the
  validation error.
\<close>

definition from_http_request_response :: "model_type \<Rightarrow> response \<Rightarrow> error + api_response" where
  "from_http_request_response model r =
     (case decoded r of
        None \<Rightarrow> Inl (ValueError ''body is not JSON'')
      | Some j \<Rightarrow>
          if status_code r \<ge> 400 then Inl (ValueError ''error status'')
          else if \<not> rows_valid model j then Inl (ValidationError ''row'')
          else Inr \<lparr>data = j, count = content_range_total (response_headers r),
                    status = status_code r\<rparr>)"

subsection \<open>The API error\<close>

text \<open>
  Modelled from the spec: \<^verbatim>\<open>APIError\<close> of \<^verbatim>\<open>exceptions.py\<close>. "API Error: {message,
  details, hint, code} mirroring the server's structured error body"; "missing fields
  default to empty/null".
\<close>

definition error_field :: "string \<Rightarrow> json \<Rightarrow> json" where
  "error_field k j =
     (case j of
        JObj kvs \<Rightarrow> (case map_of kvs k of Some v \<Rightarrow> v | None \<Rightarrow> JNull)
      | _ \<Rightarrow> JNull)"

definition message :: "json \<Rightarrow> json" where
  "message j = error_field ''message'' j"

definition details :: "json \<Rightarrow> json" where
  "details j = error_field ''details'' j"

definition hint :: "json \<Rightarrow> json" where
  "hint j = error_field ''hint'' j"

definition code :: "json \<Rightarrow> json" where
  "code j = error_field ''code'' j"


section \<open>Calling an operation\<close>

text \<open>
  One call of an operation method of \<^verbatim>\<open>SyncRequestBuilder\<close>, with its arguments
  (\<^verbatim>\<open>count\<close>, \<^verbatim>\<open>returning\<close>, \<^verbatim>\<open>upsert\<close> and \<^verbatim>\<open>ignore_duplicates\<close> have
  defaults in the source; here they are always given).
\<close>

datatype operation =
    Select "string list" "CountMethod option"
  | Insert json "CountMethod option" ReturnMethod bool
  | Upsert json "CountMethod option" ReturnMethod bool
  | Update json "CountMethod option" ReturnMethod
  | Delete "CountMethod option" ReturnMethod

text \<open>The five helpers of \<^verbatim>\<open>base_request_builder.py\<close> that the operations import.\<close>

record helpers =
  select_helper :: pre_select_fn
  insert_helper :: pre_insert_fn
  upsert_helper :: pre_insert_fn
  update_helper :: pre_update_fn
  delete_helper :: pre_delete_fn

text \<open>What the helper of an operation returns on a session.\<close>

fun helper_result :: "helpers \<Rightarrow> heap \<Rightarrow> nat \<Rightarrow> operation \<Rightarrow> pre_result" where
  "helper_result H h s (Select columns cm) = select_helper H h s columns cm"
| "helper_result H h s (Insert body cm rm upsert) = insert_helper H h s body cm rm upsert"
| "helper_result H h s (Upsert body cm rm ignore_duplicates) =
     upsert_helper H h s body cm rm ignore_duplicates"
| "helper_result H h s (Update body cm rm) = update_helper H h s body cm rm"
| "helper_result H h s (Delete cm rm) = delete_helper H h s cm rm"

text \<open>The method call \<^verbatim>\<open>builder.select(...)\<close>, \<^verbatim>\<open>builder.insert(...)\<close>, and so on.\<close>

fun SyncRequestBuilder_call ::
  "helpers \<Rightarrow> request_builder \<Rightarrow> world \<Rightarrow> operation \<Rightarrow> error + (world \<times> query_builder)" where
  "SyncRequestBuilder_call H self w (Select columns cm) =
     SyncRequestBuilder_select (select_helper H) self w columns cm"
| "SyncRequestBuilder_call H self w (Insert body cm rm upsert) =
     SyncRequestBuilder_insert (insert_helper H) self w body cm rm upsert"
| "SyncRequestBuilder_call H self w (Upsert body cm rm ignore_duplicates) =
     SyncRequestBuilder_upsert (upsert_helper H) self w body cm rm ignore_duplicates"
| "SyncRequestBuilder_call H self w (Update body cm rm) =
     SyncRequestBuilder_update (update_helper H) self w body cm rm"
| "SyncRequestBuilder_call H self w (Delete cm rm) =
     SyncRequestBuilder_delete (delete_helper H) self w cm rm"

text \<open>The class each operation method of \<^verbatim>\<open>SyncRequestBuilder\<close> instantiates.\<close>

fun returned_class :: "operation \<Rightarrow> py_class" where
  "returned_class (Select _ _) = SyncSelectRequestBuilder"
| "returned_class (Insert _ _ _ _) = SyncQueryRequestBuilder"
| "returned_class (Upsert _ _ _ _) = SyncQueryRequestBuilder"
| "returned_class (Update _ _ _) = SyncFilterRequestBuilder"
| "returned_class (Delete _ _) = SyncFilterRequestBuilder"

text \<open>The helpers as the spec describes them (see above).\<close>

definition spec_helpers :: helpers where
  "spec_helpers = \<lparr>select_helper = pre_select, insert_helper = pre_insert,
     upsert_helper = pre_upsert, update_helper = pre_update, delete_helper = pre_delete\<rparr>"

section \<open>Notions the properties are stated with\<close>

text \<open>
  The three ways a client starts a table operation: \<^verbatim>\<open>from_\<close>, \<^verbatim>\<open>table\<close> and
  \<^verbatim>\<open>from_model\<close>, of the synchronous or of the asynchronous client.
\<close>

definition table_operations ::
  "session_class \<Rightarrow> postgrest_client \<Rightarrow> heap \<Rightarrow> string \<Rightarrow> model_class
     \<Rightarrow> (heap \<times> request_builder) list" where
  "table_operations k self h t m =
     (case k of
        SyncClient \<Rightarrow>
          [SyncPostgrestClient_from self h t, SyncPostgrestClient_table self h t,
           SyncPostgrestClient_from_model self h m]
      | AsyncClient \<Rightarrow>
          [AsyncPostgrestClient_from self h t, AsyncPostgrestClient_table self h t,
           AsyncPostgrestClient_from_model self h m])"

text \<open>The configuration of a session: base URL, content of the headers, timeout, auth.\<close>

definition configuration ::
  "heap \<Rightarrow> nat \<Rightarrow> string \<times> (string \<rightharpoonup> string) \<times> timeout \<times> nat option" where
  "configuration h s =
     (base_url (sessions h ! s), headers_of h s, timeout (sessions h ! s), auth (sessions h ! s))"

text \<open>What a client has prepared when it returns a builder: the path and the configuration.\<close>

definition prepared ::
  "heap \<times> request_builder
     \<Rightarrow> string \<times> string \<times> (string \<rightharpoonup> string) \<times> timeout \<times> nat option" where
  "prepared r = (case r of (h, b) \<Rightarrow> (rb_path b, configuration h (rb_session b)))"

text \<open>
  Everything a call chain can read of its session: the session object (with the query
  parameters the filters accumulate in) and the content of its header mapping.
\<close>

definition observed :: "heap \<Rightarrow> nat \<Rightarrow> session \<times> (string \<rightharpoonup> string)" where
  "observed h s = (sessions h ! s, headers_of h s)"

text \<open>The request \<^verbatim>\<open>execute\<close> hands to the transport for a builder.\<close>

definition request_of :: "query_builder \<Rightarrow> world \<Rightarrow> call" where
  "request_of self w =
     \<lparr>call_method = qb_http_method self, call_path = qb_path self, call_json = qb_json self,
      call_session = qb_session self, call_config = sessions (store w) ! qb_session self,
      call_headers = headers_of (store w) (qb_session self)\<rparr>"

section \<open>A running example\<close>

text \<open>
  A client whose session has one default header and an auth object, a model class with and
  one without \<^verbatim>\<open>__table_name__\<close>, and three responses.
\<close>

definition heap0 :: heap where
  "heap0 = \<lparr>dicts = [[''apikey'' \<mapsto> ''k'']],
            sessions = [\<lparr>kind = SyncClient, base_url = ''http://localhost:3000'', headers = 0,
                         params = [], timeout = Seconds 5, auth = Some 7\<rparr>]\<rparr>"

definition client0 :: postgrest_client where
  "client0 = \<lparr>client_session = 0\<rparr>"

definition async_heap0 :: heap where
  "async_heap0 =
     \<lparr>dicts = [Map.empty, [''apikey'' \<mapsto> ''k'']],
      sessions = [\<lparr>kind = AsyncClient, base_url = ''http://localhost:3000'', headers = 1,
                   params = [(''x'', ''eq.1'')], timeout = Seconds 5, auth = Some 7\<rparr>]\<rparr>"

definition Country_model :: model_class where
  "Country_model = \<lparr>model_name = ''Country'', model_table_name = Some ''countries'',
                     model_fields = [''id'', ''name'']\<rparr>"

definition Name_model :: model_class where
  "Name_model = \<lparr>model_name = ''Name'', model_table_name = Some ''countries'',
                  model_fields = [''name'']\<rparr>"

definition Plain_model :: model_class where
  "Plain_model = \<lparr>model_name = ''Country'', model_table_name = None, model_fields = [''id'']\<rparr>"

definition quoted :: "string \<Rightarrow> string" where
  "quoted s = CHR 0x22 # s @ [CHR 0x22]"

definition resp_ok :: response where
  "resp_ok = \<lparr>status_code = 200, response_headers = [(''Content-Range'', ''0-0/1'')],
               text_body = ''[]'', decoded = Some (JArr [])\<rparr>"

definition not_found :: response where
  "not_found =
     \<lparr>status_code = 404, response_headers = [],
      text_body = ''{'' @ quoted ''message'' @ '':'' @ quoted ''not found'' @ ''}'',
      decoded = Some (JObj [(''message'', JStr ''not found'')])\<rparr>"

definition server_error :: response where
  "server_error =
     \<lparr>status_code = 500, response_headers = [], text_body = ''Internal Server Error'',
      decoded = None\<rparr>"

definition row_without_id :: response where
  "row_without_id =
     \<lparr>status_code = 201, response_headers = [(''Content-Range'', ''*/*'')],
      text_body = ''[{'' @ quoted ''name'' @ '':'' @ quoted ''x'' @ ''}]'',
      decoded = Some (JArr [JObj [(''name'', JStr ''x'')]])\<rparr>"

text \<open>\<^verbatim>\<open>builder1 = client.from_("t")\<close>, and the world after it.\<close>

definition world1 :: world where
  "world1 = \<lparr>store = fst (SyncPostgrestClient_from client0 heap0 ''t''), sent = []\<rparr>"

definition builder1 :: request_builder where
  "builder1 = snd (SyncPostgrestClient_from client0 heap0 ''t'')"

text \<open>\<^verbatim>\<open>builder2 = client.table("u")\<close>, after \<open>builder1\<close>.\<close>

definition builder2 :: request_builder where
  "builder2 = snd (SyncPostgrestClient_table client0 (store world1) ''u'')"

text \<open>The world after \<^verbatim>\<open>builder1.select("a", "b", count=exact)\<close>.\<close>

definition world2 :: world where
  "world2 =
     \<lparr>store =
        \<lparr>dicts = [[''apikey'' \<mapsto> ''k''], [''apikey'' \<mapsto> ''k'', ''Prefer'' \<mapsto> ''count=exact'']],
         sessions =
           [\<lparr>kind = SyncClient, base_url = ''http://localhost:3000'', headers = 0, params = [],
              timeout = Seconds 5, auth = Some 7\<rparr>,
            \<lparr>kind = SyncClient, base_url = ''http://localhost:3000'', headers = 1,
              params = [(''select'', ''a,b'')], timeout = Seconds 5, auth = Some 7\<rparr>]\<rparr>,
      sent = []\<rparr>"

definition select_builder :: query_builder where
  "select_builder =
     \<lparr>qb_class = SyncSelectRequestBuilder, qb_session = 1, qb_path = ''/t'',
      qb_http_method = ''GET'', qb_json = JNull\<rparr>"

text \<open>
  The world after \<^verbatim>\<open>builder1.insert({"name": "x"}, returning=minimal)\<close> on the same
  builder.
\<close>

definition world3 :: world where
  "world3 =
     \<lparr>store =
        \<lparr>dicts = [[''apikey'' \<mapsto> ''k''],
                  [''apikey'' \<mapsto> ''k'', ''Prefer'' \<mapsto> ''return=minimal'']],
         sessions =
           [\<lparr>kind = SyncClient, base_url = ''http://localhost:3000'', headers = 0, params = [],
              timeout = Seconds 5, auth = Some 7\<rparr>,
            \<lparr>kind = SyncClient, base_url = ''http://localhost:3000'', headers = 1,
              params = [(''select'', ''a,b'')], timeout = Seconds 5, auth = Some 7\<rparr>]\<rparr>,
      sent = []\<rparr>"

definition insert_builder :: query_builder where
  "insert_builder =
     \<lparr>qb_class = SyncQueryRequestBuilder, qb_session = 1, qb_path = ''/t'',
      qb_http_method = ''POST'', qb_json = JObj [(''name'', JStr ''x'')]\<rparr>"

text \<open>
  \<^verbatim>\<open>client.from_model(Country).insert({"name": "x"})\<close> and, for comparison,
  \<^verbatim>\<open>client.from_("countries").insert({"name": "x"})\<close>: both end in the same world, with
  builders over the same session, path, method and body.
\<close>

definition model_world :: world where
  "model_world =
     \<lparr>store = fst (SyncPostgrestClient_from_model client0 heap0 Country_model), sent = []\<rparr>"

definition model_builder :: request_builder where
  "model_builder = snd (SyncPostgrestClient_from_model client0 heap0 Country_model)"

definition model_world2 :: world where
  "model_world2 =
     \<lparr>store =
        \<lparr>dicts = [[''apikey'' \<mapsto> ''k''],
                  [''apikey'' \<mapsto> ''k'', ''Prefer'' \<mapsto> ''return=representation'']],
         sessions =
           [\<lparr>kind = SyncClient, base_url = ''http://localhost:3000'', headers = 0, params = [],
              timeout = Seconds 5, auth = Some 7\<rparr>,
            \<lparr>kind = SyncClient, base_url = ''http://localhost:3000'', headers = 1,
              params = [], timeout = Seconds 5, auth = Some 7\<rparr>]\<rparr>,
      sent = []\<rparr>"

definition typed_insert_builder :: query_builder where
  "typed_insert_builder =
     \<lparr>qb_class = SyncModelQueryRequestBuilder, qb_session = 1, qb_path = ''/countries'',
      qb_http_method = ''POST'', qb_json = JObj [(''name'', JStr ''x'')]\<rparr>"

definition untyped_insert_builder :: query_builder where
  "untyped_insert_builder =
     \<lparr>qb_class = SyncQueryRequestBuilder, qb_session = 1, qb_path = ''/countries'',
      qb_http_method = ''POST'', qb_json = JObj [(''name'', JStr ''x'')]\<rparr>"

section \<open>Properties of the clients\<close>

subsection \<open>The session a table operation prepares\<close>

text \<open>
  With a client whose session exists, \<^verbatim>\<open>_pre_table_op\<close> appends one header mapping and
  one session to the store and touches nothing else.
\<close>

lemma Sync_pre_table_op_eq:
  assumes "client_session c < length (sessions h)"
  shows "SyncPostgrestClient_pre_table_op c h t =
           (h\<lparr>dicts := dicts h @ [headers_of h (client_session c)],
              sessions := sessions h @
                [\<lparr>kind = SyncClient, base_url = base_url (sessions h ! client_session c),
                  headers = length (dicts h), params = [],
                  timeout = timeout (sessions h ! client_session c),
                  auth = auth (sessions h ! client_session c)\<rparr>]\<rparr>,
            length (sessions h), ''/'' @ t)"
  using assms
  by (simp add: SyncPostgrestClient_pre_table_op_def SyncPostgrestClient_create_session_def
      new_dict_def new_session_def set_auth_def Let_def nth_append)

lemma Async_pre_table_op_eq:
  assumes "client_session c < length (sessions h)"
  shows "AsyncPostgrestClient_pre_table_op c h t =
           (h\<lparr>dicts := dicts h @ [headers_of h (client_session c)],
              sessions := sessions h @
                [\<lparr>kind = AsyncClient, base_url = base_url (sessions h ! client_session c),
                  headers = length (dicts h), params = [],
                  timeout = timeout (sessions h ! client_session c),
                  auth = auth (sessions h ! client_session c)\<rparr>]\<rparr>,
            length (sessions h), ''/'' @ t)"
  using assms
  by (simp add: AsyncPostgrestClient_pre_table_op_def AsyncPostgrestClient_create_session_def
      new_dict_def new_session_def set_auth_def Let_def nth_append)

lemma table_operations_result:
  assumes "client_session c < length (sessions h)"
    and "(h1, b1) \<in> set (table_operations k c h t m)"
  shows "h1 = h\<lparr>dicts := dicts h @ [headers_of h (client_session c)],
              sessions := sessions h @
                [\<lparr>kind = k, base_url = base_url (sessions h ! client_session c),
                  headers = length (dicts h), params = [],
                  timeout = timeout (sessions h ! client_session c),
                  auth = auth (sessions h ! client_session c)\<rparr>]\<rparr>
         \<and> rb_session b1 = length (sessions h)"
  using assms
  by (cases k)
     (auto simp: table_operations_def SyncPostgrestClient_from_def SyncPostgrestClient_table_def
        SyncPostgrestClient_from_model_def AsyncPostgrestClient_from_def
        AsyncPostgrestClient_table_def AsyncPostgrestClient_from_model_def
        Sync_pre_table_op_eq Async_pre_table_op_eq)

lemma valid_client0: "valid_session heap0 (client_session client0)"
  by (simp add: valid_session_def heap0_def client0_def)

lemma valid_async_client0: "valid_session async_heap0 (client_session client0)"
  by (simp add: valid_session_def async_heap0_def client0_def)

text \<open>
  Claim C3. Every table operation of a client (\<^verbatim>\<open>from_\<close>, \<^verbatim>\<open>table\<close>,
  \<^verbatim>\<open>from_model\<close>) gets a session of its own: its address is new, its header mapping is
  a new object, and it carries the client's base URL, header content, timeout and auth.
  Creating the builder changes no session and no header mapping that existed before, the
  client's among them. Of two builders made one after the other from the same client,
  neither sees what is written to the headers or query parameters of the other's session,
  and the client's session sees none of it.
\<close>

theorem table_operation_clones_session:
  assumes "valid_session h (client_session c)"
    and "(h1, b1) \<in> set (table_operations k c h t1 ma)"
    and "(h2, b2) \<in> set (table_operations k c h1 t2 mb)"
  shows "rb_session b1 = length (sessions h)
       \<and> valid_session h1 (rb_session b1)
       \<and> headers (sessions h1 ! rb_session b1) = length (dicts h)
       \<and> base_url (sessions h1 ! rb_session b1) = base_url (sessions h ! client_session c)
       \<and> headers_of h1 (rb_session b1) = headers_of h (client_session c)
       \<and> timeout (sessions h1 ! rb_session b1) = timeout (sessions h ! client_session c)
       \<and> auth (sessions h1 ! rb_session b1) = auth (sessions h ! client_session c)
       \<and> take (length (sessions h)) (sessions h1) = sessions h
       \<and> take (length (dicts h)) (dicts h1) = dicts h
       \<and> observed h1 (client_session c) = observed h (client_session c)
       \<and> rb_session b1 \<noteq> rb_session b2
       \<and> headers (sessions h2 ! rb_session b1) \<noteq> headers (sessions h2 ! rb_session b2)
       \<and> observed (set_header h2 (rb_session b1) key v) (rb_session b2) = observed h2 (rb_session b2)
       \<and> observed (set_param h2 (rb_session b1) key v) (rb_session b2) = observed h2 (rb_session b2)
       \<and> observed (add_param h2 (rb_session b1) key v) (rb_session b2) = observed h2 (rb_session b2)
       \<and> observed (set_header h2 (rb_session b2) key v) (rb_session b1) = observed h2 (rb_session b1)
       \<and> observed (set_param h2 (rb_session b2) key v) (rb_session b1) = observed h2 (rb_session b1)
       \<and> observed (add_param h2 (rb_session b2) key v) (rb_session b1) = observed h2 (rb_session b1)
       \<and> observed (set_header h2 (rb_session b1) key v) (client_session c) = observed h (client_session c)
       \<and> observed (set_param h2 (rb_session b1) key v) (client_session c) = observed h (client_session c)
       \<and> observed (add_param h2 (rb_session b1) key v) (client_session c) = observed h (client_session c)"
proof -
  let ?c = "client_session c"
  from assms(1) have c: "?c < length (sessions h)"
    and hc: "headers (sessions h ! ?c) < length (dicts h)"
    by (simp_all add: valid_session_def)
  note r1 = table_operations_result [OF c assms(2)]
  from r1 c have c1: "?c < length (sessions h1)" by simp
  note r2 = table_operations_result [OF c1 assms(3)]
  show ?thesis
    using c hc r1 r2
    by (simp add: valid_session_def observed_def headers_of_def set_header_def set_param_def
        add_param_def nth_append)
qed

text \<open>
  The theorem at the example client: \<^verbatim>\<open>from_("a")\<close>, then \<^verbatim>\<open>from_model(Country)\<close>.
\<close>

theorem table_operation_clones_session_witness:
  "valid_session heap0 (client_session client0)
   \<and> rb_session (snd (SyncPostgrestClient_from client0 heap0 ''a'')) = length (sessions heap0)
   \<and> rb_session (snd (SyncPostgrestClient_from client0 heap0 ''a'')) \<noteq>
       rb_session (snd (SyncPostgrestClient_from_model client0
         (fst (SyncPostgrestClient_from client0 heap0 ''a'')) Country_model))
   \<and> observed (fst (SyncPostgrestClient_from client0 heap0 ''a'')) (client_session client0) =
       observed heap0 (client_session client0)"
proof -
  have i1: "(fst (SyncPostgrestClient_from client0 heap0 ''a''),
             snd (SyncPostgrestClient_from client0 heap0 ''a''))
              \<in> set (table_operations SyncClient client0 heap0 ''a'' Country_model)"
    by (simp add: table_operations_def)
  have i2: "(fst (SyncPostgrestClient_from_model client0
                    (fst (SyncPostgrestClient_from client0 heap0 ''a'')) Country_model),
             snd (SyncPostgrestClient_from_model client0
                    (fst (SyncPostgrestClient_from client0 heap0 ''a'')) Country_model))
              \<in> set (table_operations SyncClient client0
                       (fst (SyncPostgrestClient_from client0 heap0 ''a'')) ''b'' Country_model)"
    by (simp add: table_operations_def)
  show ?thesis
    using table_operation_clones_session [OF valid_client0 i1 i2] valid_client0 by blast
qed

subsection \<open>The synchronous and the asynchronous client\<close>

text \<open>
  Claim C6. Both clients prepare a table operation in the same way. Each appends one new
  header mapping and one new session to its store, a clone of the client's session that
  is not the client's session itself, and returns a builder over that new session with
  the path \<^verbatim>\<open>/{table}\<close>; the results differ only in the class of the session and of the
  builder. So for clients whose sessions have the same configuration (base URL, header
  content, timeout, auth), the synchronous and the asynchronous client prepare the same
  path and the same configuration of the cloned session, for \<^verbatim>\<open>from_\<close>, for
  \<^verbatim>\<open>table\<close> and for \<^verbatim>\<open>from_model\<close>. (\<^verbatim>\<open>from_model\<close> also subscripts the builder
  class, with the type variable in the synchronous client and with the model in the
  asynchronous one; the subscript is no part of the path or the session.)
\<close>

theorem sync_async_prepare_same_request:
  assumes "valid_session hs (client_session cs)"
    and "valid_session ha (client_session ca)"
    and "configuration hs (client_session cs) = configuration ha (client_session ca)"
  shows "prepared (SyncPostgrestClient_from cs hs t) = (''/'' @ t, configuration hs (client_session cs))
       \<and> prepared (AsyncPostgrestClient_from ca ha t) = prepared (SyncPostgrestClient_from cs hs t)
       \<and> prepared (AsyncPostgrestClient_table ca ha t) = prepared (SyncPostgrestClient_table cs hs t)
       \<and> prepared (AsyncPostgrestClient_from_model ca ha m) =
           prepared (SyncPostgrestClient_from_model cs hs m)
       \<and> SyncPostgrestClient_from cs hs t =
           (hs\<lparr>dicts := dicts hs @ [headers_of hs (client_session cs)],
               sessions := sessions hs @
                 [\<lparr>kind = SyncClient, base_url = base_url (sessions hs ! client_session cs),
                   headers = length (dicts hs), params = [],
                   timeout = timeout (sessions hs ! client_session cs),
                   auth = auth (sessions hs ! client_session cs)\<rparr>]\<rparr>,
            \<lparr>rb_class = SyncRequestBuilder, rb_session = length (sessions hs),
              rb_path = ''/'' @ t\<rparr>)
       \<and> AsyncPostgrestClient_from ca ha t =
           (ha\<lparr>dicts := dicts ha @ [headers_of ha (client_session ca)],
               sessions := sessions ha @
                 [\<lparr>kind = AsyncClient, base_url = base_url (sessions ha ! client_session ca),
                   headers = length (dicts ha), params = [],
                   timeout = timeout (sessions ha ! client_session ca),
                   auth = auth (sessions ha ! client_session ca)\<rparr>]\<rparr>,
            \<lparr>rb_class = AsyncRequestBuilder, rb_session = length (sessions ha),
              rb_path = ''/'' @ t\<rparr>)
       \<and> SyncPostgrestClient_table cs hs t = SyncPostgrestClient_from cs hs t
       \<and> AsyncPostgrestClient_table ca ha t = AsyncPostgrestClient_from ca ha t
       \<and> SyncPostgrestClient_from_model cs hs m =
           (fst (SyncPostgrestClient_from cs hs t),
            \<lparr>rb_class = SyncModelRequestBuilder, rb_session = length (sessions hs),
              rb_path = ''/'' @ table_name_of m\<rparr>)
       \<and> AsyncPostgrestClient_from_model ca ha m =
           (fst (AsyncPostgrestClient_from ca ha t),
            \<lparr>rb_class = AsyncModelRequestBuilder, rb_session = length (sessions ha),
              rb_path = ''/'' @ table_name_of m\<rparr>)
       \<and> rb_session (snd (SyncPostgrestClient_from cs hs t)) \<noteq> client_session cs
       \<and> rb_session (snd (AsyncPostgrestClient_from ca ha t)) \<noteq> client_session ca
       \<and> observed (fst (SyncPostgrestClient_from cs hs t)) (client_session cs) =
           observed hs (client_session cs)
       \<and> observed (fst (AsyncPostgrestClient_from ca ha t)) (client_session ca) =
           observed ha (client_session ca)"
proof -
  from assms(1) have s: "client_session cs < length (sessions hs)"
    and sh: "headers (sessions hs ! client_session cs) < length (dicts hs)"
    by (simp_all add: valid_session_def)
  from assms(2) have a: "client_session ca < length (sessions ha)"
    and ah: "headers (sessions ha ! client_session ca) < length (dicts ha)"
    by (simp_all add: valid_session_def)
  have p: "prepared (SyncPostgrestClient_from cs hs t) = (''/'' @ t, configuration hs (client_session cs))
       \<and> prepared (AsyncPostgrestClient_from ca ha t) = prepared (SyncPostgrestClient_from cs hs t)
       \<and> prepared (AsyncPostgrestClient_table ca ha t) = prepared (SyncPostgrestClient_table cs hs t)
       \<and> prepared (AsyncPostgrestClient_from_model ca ha m) =
           prepared (SyncPostgrestClient_from_model cs hs m)"
    using assms
    by (simp add: valid_session_def prepared_def configuration_def headers_of_def nth_append
        SyncPostgrestClient_from_def SyncPostgrestClient_table_def
        SyncPostgrestClient_from_model_def AsyncPostgrestClient_from_def
        AsyncPostgrestClient_table_def AsyncPostgrestClient_from_model_def
        Sync_pre_table_op_eq Async_pre_table_op_eq)
  have e: "SyncPostgrestClient_from cs hs t =
           (hs\<lparr>dicts := dicts hs @ [headers_of hs (client_session cs)],
               sessions := sessions hs @
                 [\<lparr>kind = SyncClient, base_url = base_url (sessions hs ! client_session cs),
                   headers = length (dicts hs), params = [],
                   timeout = timeout (sessions hs ! client_session cs),
                   auth = auth (sessions hs ! client_session cs)\<rparr>]\<rparr>,
            \<lparr>rb_class = SyncRequestBuilder, rb_session = length (sessions hs),
              rb_path = ''/'' @ t\<rparr>)
       \<and> AsyncPostgrestClient_from ca ha t =
           (ha\<lparr>dicts := dicts ha @ [headers_of ha (client_session ca)],
               sessions := sessions ha @
                 [\<lparr>kind = AsyncClient, base_url = base_url (sessions ha ! client_session ca),
                   headers = length (dicts ha), params = [],
                   timeout = timeout (sessions ha ! client_session ca),
                   auth = auth (sessions ha ! client_session ca)\<rparr>]\<rparr>,
            \<lparr>rb_class = AsyncRequestBuilder, rb_session = length (sessions ha),
              rb_path = ''/'' @ t\<rparr>)
       \<and> SyncPostgrestClient_table cs hs t = SyncPostgrestClient_from cs hs t
       \<and> AsyncPostgrestClient_table ca ha t = AsyncPostgrestClient_from ca ha t
       \<and> SyncPostgrestClient_from_model cs hs m =
           (fst (SyncPostgrestClient_from cs hs t),
            \<lparr>rb_class = SyncModelRequestBuilder, rb_session = length (sessions hs),
              rb_path = ''/'' @ table_name_of m\<rparr>)
       \<and> AsyncPostgrestClient_from_model ca ha m =
           (fst (AsyncPostgrestClient_from ca ha t),
            \<lparr>rb_class = AsyncModelRequestBuilder, rb_session = length (sessions ha),
              rb_path = ''/'' @ table_name_of m\<rparr>)"
    using s a
    by (simp add: SyncPostgrestClient_from_def SyncPostgrestClient_table_def
        SyncPostgrestClient_from_model_def AsyncPostgrestClient_from_def
        AsyncPostgrestClient_table_def AsyncPostgrestClient_from_model_def
        Sync_pre_table_op_eq Async_pre_table_op_eq)
  have f: "rb_session (snd (SyncPostgrestClient_from cs hs t)) \<noteq> client_session cs
       \<and> rb_session (snd (AsyncPostgrestClient_from ca ha t)) \<noteq> client_session ca
       \<and> observed (fst (SyncPostgrestClient_from cs hs t)) (client_session cs) =
           observed hs (client_session cs)
       \<and> observed (fst (AsyncPostgrestClient_from ca ha t)) (client_session ca) =
           observed ha (client_session ca)"
    using s sh a ah
    by (simp add: SyncPostgrestClient_from_def AsyncPostgrestClient_from_def
        Sync_pre_table_op_eq Async_pre_table_op_eq observed_def headers_of_def nth_append)
  from p e f show ?thesis by (intro conjI) simp_all
qed

theorem sync_async_prepare_same_request_witness:
  "valid_session heap0 (client_session client0) \<and> valid_session async_heap0 (client_session client0)
   \<and> configuration heap0 (client_session client0) = configuration async_heap0 (client_session client0)
   \<and> prepared (AsyncPostgrestClient_from client0 async_heap0 ''t'') =
       (''/t'', ''http://localhost:3000'', [''apikey'' \<mapsto> ''k''], Seconds 5, Some 7)
   \<and> prepared (SyncPostgrestClient_from client0 heap0 ''t'') =
       (''/t'', ''http://localhost:3000'', [''apikey'' \<mapsto> ''k''], Seconds 5, Some 7)
   \<and> snd (SyncPostgrestClient_from client0 heap0 ''t'') =
       \<lparr>rb_class = SyncRequestBuilder, rb_session = 1, rb_path = ''/t''\<rparr>
   \<and> snd (AsyncPostgrestClient_from client0 async_heap0 ''t'') =
       \<lparr>rb_class = AsyncRequestBuilder, rb_session = 1, rb_path = ''/t''\<rparr>
   \<and> rb_session (snd (SyncPostgrestClient_from client0 heap0 ''t'')) \<noteq> client_session client0
   \<and> rb_session (snd (AsyncPostgrestClient_from client0 async_heap0 ''t''))
       \<noteq> client_session client0"
proof -
  have e: "configuration heap0 (client_session client0) =
             configuration async_heap0 (client_session client0)"
    by (simp add: configuration_def headers_of_def heap0_def async_heap0_def client0_def)
  have c: "configuration heap0 (client_session client0) =
             (''http://localhost:3000'', [''apikey'' \<mapsto> ''k''], Seconds 5, Some 7)"
    by (simp add: configuration_def headers_of_def heap0_def client0_def)
  have l: "length (sessions heap0) = 1" "length (sessions async_heap0) = 1"
    by (simp_all add: heap0_def async_heap0_def)
  note th = sync_async_prepare_same_request
        [OF valid_client0 valid_async_client0 e, of "''t''" Country_model]
  note p1 = th [THEN conjunct1]
  note p2 = th [THEN conjunct2, THEN conjunct1]
  note e1 = th [THEN conjunct2, THEN conjunct2, THEN conjunct2, THEN conjunct2, THEN conjunct1]
  note e2 = th [THEN conjunct2, THEN conjunct2, THEN conjunct2, THEN conjunct2, THEN conjunct2,
      THEN conjunct1]
  from p1 c have q1: "prepared (SyncPostgrestClient_from client0 heap0 ''t'') =
       (''/t'', ''http://localhost:3000'', [''apikey'' \<mapsto> ''k''], Seconds 5, Some 7)"
    by simp
  from p2 q1 have q2: "prepared (AsyncPostgrestClient_from client0 async_heap0 ''t'') =
       (''/t'', ''http://localhost:3000'', [''apikey'' \<mapsto> ''k''], Seconds 5, Some 7)"
    by simp
  from e1 have b1: "snd (SyncPostgrestClient_from client0 heap0 ''t'') =
       \<lparr>rb_class = SyncRequestBuilder, rb_session = 1, rb_path = ''/t''\<rparr>"
    by (simp add: l)
  from e2 have b2: "snd (AsyncPostgrestClient_from client0 async_heap0 ''t'') =
       \<lparr>rb_class = AsyncRequestBuilder, rb_session = 1, rb_path = ''/t''\<rparr>"
    by (simp add: l)
  have n1: "rb_session (snd (SyncPostgrestClient_from client0 heap0 ''t''))
        \<noteq> client_session client0"
    using b1 by (simp add: client0_def)
  have n2: "rb_session (snd (AsyncPostgrestClient_from client0 async_heap0 ''t''))
       \<noteq> client_session client0"
    using b2 by (simp add: client0_def)
  show ?thesis
    by (intro conjI) (rule valid_client0 valid_async_client0 e q2 q1 b1 b2 n1 n2)+
qed

subsection \<open>Stored procedure calls\<close>

text \<open>
  Claim C8. \<^verbatim>\<open>rpc(func, params)\<close> hands exactly one request to the transport, on the
  client's own session: method POST, path \<^verbatim>\<open>/rpc/{func}\<close>, body \<^verbatim>\<open>params\<close>. It returns
  what the transport answers and leaves the store as it was. The asynchronous client
  does the same.
\<close>

theorem rpc_posts_once:
  "SyncPostgrestClient_rpc tr self w func ps =
     (w\<lparr>sent := sent w @
         [\<lparr>call_method = ''POST'', call_path = ''/rpc/'' @ func, call_json = ps,
           call_session = client_session self,
           call_config = sessions (store w) ! client_session self,
           call_headers = headers_of (store w) (client_session self)\<rparr>]\<rparr>,
      tr (sent w)
        \<lparr>call_method = ''POST'', call_path = ''/rpc/'' @ func, call_json = ps,
          call_session = client_session self,
          call_config = sessions (store w) ! client_session self,
          call_headers = headers_of (store w) (client_session self)\<rparr>)
   \<and> AsyncPostgrestClient_rpc tr self w func ps = SyncPostgrestClient_rpc tr self w func ps"
  by (simp add: SyncPostgrestClient_rpc_def AsyncPostgrestClient_rpc_def session_post_def
      session_request_def Let_def)

theorem rpc_posts_once_witness:
  "sent (fst (SyncPostgrestClient_rpc (\<lambda>cs c. Inr resp_ok) client0 \<lparr>store = heap0, sent = []\<rparr>
                ''add'' (JObj [(''a'', JNum 1)]))) =
     [\<lparr>call_method = ''POST'', call_path = ''/rpc/add'', call_json = JObj [(''a'', JNum 1)],
       call_session = 0, call_config = sessions heap0 ! 0,
       call_headers = [''apikey'' \<mapsto> ''k'']\<rparr>]
   \<and> snd (AsyncPostgrestClient_rpc (\<lambda>cs c. Inr resp_ok) client0 \<lparr>store = heap0, sent = []\<rparr>
            ''add'' (JObj [(''a'', JNum 1)])) = Inr resp_ok"
  using rpc_posts_once [of "\<lambda>cs c. Inr resp_ok" client0 "\<lparr>store = heap0, sent = []\<rparr>" "''add''"
      "JObj [(''a'', JNum 1)]"]
  by (simp add: client0_def heap0_def headers_of_def)

subsection \<open>Table operations on a model class\<close>

text \<open>
  Claim C10. \<^verbatim>\<open>from_model(M)\<close> takes the table name from \<^verbatim>\<open>M.__table_name__\<close> when
  the class variable is set and from the name of the class otherwise. It returns a typed
  builder whose path is \<^verbatim>\<open>/{table name}\<close>, over a new session with a new header mapping
  that carries the client's configuration. The asynchronous client does the same.
\<close>

theorem from_model_resolves_table_name:
  assumes "valid_session h (client_session c)"
  shows "prepared (SyncPostgrestClient_from_model c h m) =
           (''/'' @ (case model_table_name m of Some t \<Rightarrow> t | None \<Rightarrow> model_name m),
            configuration h (client_session c))
       \<and> rb_class (snd (SyncPostgrestClient_from_model c h m)) = SyncModelRequestBuilder
       \<and> rb_session (snd (SyncPostgrestClient_from_model c h m)) = length (sessions h)
       \<and> headers (sessions (fst (SyncPostgrestClient_from_model c h m)) ! length (sessions h))
           = length (dicts h)
       \<and> prepared (AsyncPostgrestClient_from_model c h m) =
           (''/'' @ (case model_table_name m of Some t \<Rightarrow> t | None \<Rightarrow> model_name m),
            configuration h (client_session c))
       \<and> rb_class (snd (AsyncPostgrestClient_from_model c h m)) = AsyncModelRequestBuilder
       \<and> rb_session (snd (AsyncPostgrestClient_from_model c h m)) = length (sessions h)
       \<and> headers (sessions (fst (AsyncPostgrestClient_from_model c h m)) ! length (sessions h))
           = length (dicts h)"
  using assms
  by (simp add: valid_session_def prepared_def configuration_def headers_of_def nth_append
      SyncPostgrestClient_from_model_def AsyncPostgrestClient_from_model_def
      Sync_pre_table_op_eq Async_pre_table_op_eq table_name_of_def)

theorem from_model_resolves_table_name_witness:
  "valid_session heap0 (client_session client0)
   \<and> fst (prepared (SyncPostgrestClient_from_model client0 heap0 Country_model)) = ''/countries''
   \<and> fst (prepared (SyncPostgrestClient_from_model client0 heap0 Plain_model)) = ''/Country''
   \<and> fst (prepared (AsyncPostgrestClient_from_model client0 async_heap0 Country_model)) =
       ''/countries''"
  using from_model_resolves_table_name [OF valid_client0, of Country_model]
    from_model_resolves_table_name [OF valid_client0, of Plain_model]
    from_model_resolves_table_name [OF valid_async_client0, of Country_model] valid_client0
  by (simp add: Country_model_def Plain_model_def)


section \<open>Properties of the request builders\<close>

subsection \<open>What an operation method does\<close>

text \<open>
  Each of the five operation methods is its helper followed by the construction of a new
  builder over the session and path of \<open>self\<close>.
\<close>

lemma SyncRequestBuilder_call_eq:
  "SyncRequestBuilder_call H self w op1 =
     (case helper_result H (store w) (rb_session self) op1 of
        Inl e \<Rightarrow> Inl e
      | Inr (h', method, body') \<Rightarrow>
          Inr (w\<lparr>store := h'\<rparr>,
               \<lparr>qb_class = returned_class op1, qb_session = rb_session self,
                qb_path = rb_path self, qb_http_method = method, qb_json = body'\<rparr>))"
  by (cases op1)
     (auto simp: SyncRequestBuilder_select_def SyncRequestBuilder_insert_def
        SyncRequestBuilder_upsert_def SyncRequestBuilder_update_def SyncRequestBuilder_delete_def
        split: sum.splits)

text \<open>The running example, evaluated.\<close>

lemma world1_eq:
  "world1 =
     \<lparr>store =
        \<lparr>dicts = [[''apikey'' \<mapsto> ''k''], [''apikey'' \<mapsto> ''k'']],
         sessions =
           [\<lparr>kind = SyncClient, base_url = ''http://localhost:3000'', headers = 0, params = [],
              timeout = Seconds 5, auth = Some 7\<rparr>,
            \<lparr>kind = SyncClient, base_url = ''http://localhost:3000'', headers = 1,
              params = [], timeout = Seconds 5, auth = Some 7\<rparr>]\<rparr>,
      sent = []\<rparr>"
  by (simp add: world1_def SyncPostgrestClient_from_def Sync_pre_table_op_eq heap0_def
      client0_def headers_of_def)

lemma builder1_eq:
  "builder1 = \<lparr>rb_class = SyncRequestBuilder, rb_session = 1, rb_path = ''/t''\<rparr>"
  by (simp add: builder1_def SyncPostgrestClient_from_def Sync_pre_table_op_eq heap0_def
      client0_def)

lemma select_on_builder1:
  "SyncRequestBuilder_call spec_helpers builder1 world1 (Select [''a'', ''b''] (Some exact)) =
     Inr (world2, select_builder)"
  by (simp add: SyncRequestBuilder_call_eq spec_helpers_def pre_select_def world1_eq builder1_eq
      world2_def select_builder_def set_param_def set_header_def headers_of_def)

lemma insert_on_builder1:
  "SyncRequestBuilder_call spec_helpers builder1 world2
       (Insert (JObj [(''name'', JStr ''x'')]) None minimal False) =
     Inr (world3, insert_builder)"
  by (simp add: SyncRequestBuilder_call_eq spec_helpers_def pre_insert_def builder1_eq
      world2_def world3_def insert_builder_def set_header_def headers_of_def prefer_header_def)

lemma sent_world2: "sent world2 = []"
  by (simp add: world2_def)

subsection \<open>A second operation on the same builder\<close>

text \<open>
  Claim C1, as stated, fails. On the builder that \<^verbatim>\<open>client.from_("t")\<close> returns,
  \<^verbatim>\<open>select("a", "b", count=exact)\<close> followed by \<^verbatim>\<open>insert({"name": "x"},
  returning=minimal)\<close> is not rejected: the second call returns a POST builder over the
  same session, and the \<^verbatim>\<open>Prefer\<close> header the first call left in that session is
  overwritten.
\<close>

theorem second_operation_not_rejected:
  "SyncRequestBuilder_call spec_helpers builder1 world1 (Select [''a'', ''b''] (Some exact)) =
     Inr (world2, select_builder)
   \<and> SyncRequestBuilder_call spec_helpers builder1 world2
         (Insert (JObj [(''name'', JStr ''x'')]) None minimal False) =
       Inr (world3, insert_builder)
   \<and> qb_http_method insert_builder = ''POST''
   \<and> qb_session insert_builder = qb_session select_builder
   \<and> headers_of (store world2) (qb_session select_builder) ''Prefer'' = Some ''count=exact''
   \<and> headers_of (store world3) (qb_session select_builder) ''Prefer'' = Some ''return=minimal''"
proof -
  have "headers_of (store world2) (qb_session select_builder) ''Prefer'' = Some ''count=exact''"
    by (simp add: world2_def headers_of_def select_builder_def)
  moreover have "headers_of (store world3) (qb_session select_builder) ''Prefer'' =
      Some ''return=minimal''"
    by (simp add: world3_def headers_of_def select_builder_def)
  moreover have "qb_http_method insert_builder = ''POST''"
    and "qb_session insert_builder = qb_session select_builder"
    by (simp_all add: insert_builder_def select_builder_def)
  ultimately show ?thesis
    using select_on_builder1 insert_on_builder1 by blast
qed

text \<open>
  Claim C1, amended. After one operation on a \<^verbatim>\<open>SyncRequestBuilder\<close>, a second
  operation on the same builder is decided by its helper alone: the builder makes no check
  of its own, so the call fails exactly when the helper raises and otherwise returns a new
  builder over the same session and path. Neither call hands a request to the transport,
  and the first builder keeps its session and path. What is structural is the chained
  form: the class an operation returns defines no operation method of its own (after
  insert and upsert the only method is \<^verbatim>\<open>execute\<close>), so one is available on the
  returned builder only if a base class outside the source files defines it.
\<close>

theorem second_operation_accepted:
  assumes "SyncRequestBuilder_call H self w op1 = Inr (w1, q1)"
  shows "sent w1 = sent w
       \<and> qb_session q1 = rb_session self \<and> qb_path q1 = rb_path self
       \<and> SyncRequestBuilder_call H self w1 op2 =
           (case helper_result H (store w1) (rb_session self) op2 of
              Inl e \<Rightarrow> Inl e
            | Inr (h2, method, body') \<Rightarrow>
                Inr (w1\<lparr>store := h2\<rparr>,
                     \<lparr>qb_class = returned_class op2, qb_session = rb_session self,
                      qb_path = rb_path self, qb_http_method = method, qb_json = body'\<rparr>))
       \<and> (\<not> isl (helper_result H (store w1) (rb_session self) op2) \<longrightarrow>
            \<not> isl (SyncRequestBuilder_call H self w1 op2)
            \<and> sent (fst (projr (SyncRequestBuilder_call H self w1 op2))) = sent w)
       \<and> set (own_methods F S SyncRequestBuilder) \<inter> methods F S SyncQueryRequestBuilder = {}
       \<and> set (own_methods F S SyncRequestBuilder) \<inter> methods F S (qb_class q1)
           \<subseteq> set F \<union> set S"
proof -
  from assms have q: "qb_class q1 = returned_class op1"
    by (auto simp: SyncRequestBuilder_call_eq split: sum.splits)
  have m1: "set (own_methods F S SyncRequestBuilder) \<inter> methods F S (returned_class op1)
          \<subseteq> set F \<union> set S"
    by (cases op1) (auto simp: methods_def ancestors_def)
  have m2: "set (own_methods F S SyncRequestBuilder) \<inter> methods F S SyncQueryRequestBuilder = {}"
    by (auto simp: methods_def ancestors_def)
  from assms have s1: "sent w1 = sent w"
    and s2: "qb_session q1 = rb_session self" and s3: "qb_path q1 = rb_path self"
    by (auto simp: SyncRequestBuilder_call_eq split: sum.splits)
  have c: "\<not> isl (helper_result H (store w1) (rb_session self) op2) \<longrightarrow>
            \<not> isl (SyncRequestBuilder_call H self w1 op2)
            \<and> sent (fst (projr (SyncRequestBuilder_call H self w1 op2))) = sent w"
    using s1 by (auto simp: SyncRequestBuilder_call_eq split: sum.splits)
  show ?thesis
    using m1 m2 s1 s2 s3 c by (simp add: q SyncRequestBuilder_call_eq)
qed

theorem second_operation_accepted_witness:
  "SyncRequestBuilder_call spec_helpers builder1 world1 (Select [''a'', ''b''] (Some exact)) =
     Inr (world2, select_builder)
   \<and> \<not> isl (helper_result spec_helpers (store world2) (rb_session builder1)
              (Insert (JObj [(''name'', JStr ''x'')]) None minimal False))
   \<and> \<not> isl (SyncRequestBuilder_call spec_helpers builder1 world2
              (Insert (JObj [(''name'', JStr ''x'')]) None minimal False))
   \<and> sent world2 = sent world1"
proof -
  have "\<not> isl (helper_result spec_helpers (store world2) (rb_session builder1)
              (Insert (JObj [(''name'', JStr ''x'')]) None minimal False))"
    by (simp add: spec_helpers_def pre_insert_def)
  then show ?thesis
    using second_operation_accepted [OF select_on_builder1,
        of "Insert (JObj [(''name'', JStr ''x'')]) None minimal False"]
      select_on_builder1
    by blast
qed

subsection \<open>The session of the returned builders\<close>

text \<open>The helpers of the running example return on every store.\<close>

lemma spec_helper_result:
  "\<exists>h' method body'. helper_result spec_helpers h s op1 = Inr (h', method, body')"
  by (cases op1)
     (simp_all add: spec_helpers_def pre_select_def pre_insert_def pre_upsert_def
        pre_update_def pre_delete_def Let_def)

text \<open>
  Claim C9. On a \<^verbatim>\<open>SyncRequestBuilder\<close> that \<^verbatim>\<open>from_\<close> or \<^verbatim>\<open>table\<close> returned, each of
  select, insert, upsert, update and delete returns a builder whenever its helper returns,
  and that builder holds the session of the \<^verbatim>\<open>SyncRequestBuilder\<close> it was called on.
  So the builders of two operations called on one \<^verbatim>\<open>SyncRequestBuilder\<close> are over one
  and the same session, while an operation on a builder from another \<^verbatim>\<open>from_\<close> or
  \<^verbatim>\<open>table\<close> call gives a builder over a different session.
\<close>

theorem operations_share_parent_session:
  assumes "valid_session h (client_session c)"
    and "(h1, b1) \<in> set (table_operations SyncClient c h t1 ma)"
    and "(h2, b2) \<in> set (table_operations SyncClient c h1 t2 mb)"
    and "rb_class b1 = SyncRequestBuilder"
    and "rb_class b2 = SyncRequestBuilder"
  shows "SyncRequestBuilder_call H b1 w op1 =
           (case helper_result H (store w) (rb_session b1) op1 of
              Inl e \<Rightarrow> Inl e
            | Inr (h', method, body') \<Rightarrow>
                Inr (w\<lparr>store := h'\<rparr>,
                     \<lparr>qb_class = returned_class op1, qb_session = rb_session b1,
                      qb_path = rb_path b1, qb_http_method = method, qb_json = body'\<rparr>))
       \<and> SyncRequestBuilder_call H b2 w op1 =
           (case helper_result H (store w) (rb_session b2) op1 of
              Inl e \<Rightarrow> Inl e
            | Inr (h', method, body') \<Rightarrow>
                Inr (w\<lparr>store := h'\<rparr>,
                     \<lparr>qb_class = returned_class op1, qb_session = rb_session b2,
                      qb_path = rb_path b2, qb_http_method = method, qb_json = body'\<rparr>))
       \<and> (\<not> isl (helper_result H (store w) (rb_session b1) op1) \<longrightarrow>
            \<not> isl (SyncRequestBuilder_call H b1 w op1)
            \<and> qb_session (snd (projr (SyncRequestBuilder_call H b1 w op1))) = rb_session b1)
       \<and> rb_session b1 \<noteq> rb_session b2
       \<and> (SyncRequestBuilder_call H b1 wa opa = Inr (w1, q1)
            \<and> SyncRequestBuilder_call H b1 wb opb = Inr (w2, q2)
            \<and> SyncRequestBuilder_call H b2 wc opc = Inr (w3, q3) \<longrightarrow>
            qb_session q1 = rb_session b1 \<and> qb_session q2 = rb_session b1
            \<and> qb_session q1 = qb_session q2
            \<and> qb_session q3 = rb_session b2
            \<and> qb_session q3 \<noteq> qb_session q1)"
proof -
  from assms(1) have c: "client_session c < length (sessions h)"
    by (simp add: valid_session_def)
  note r1 = table_operations_result [OF c assms(2)]
  from r1 c have c1: "client_session c < length (sessions h1)" by simp
  note r2 = table_operations_result [OF c1 assms(3)]
  from r1 r2 have d: "rb_session b1 \<noteq> rb_session b2" by simp
  have i: "\<not> isl (helper_result H (store w) (rb_session b1) op1) \<longrightarrow>
            \<not> isl (SyncRequestBuilder_call H b1 w op1)
            \<and> qb_session (snd (projr (SyncRequestBuilder_call H b1 w op1))) = rb_session b1"
    by (auto simp: SyncRequestBuilder_call_eq split: sum.splits)
  have j: "SyncRequestBuilder_call H b1 wa opa = Inr (w1, q1)
            \<and> SyncRequestBuilder_call H b1 wb opb = Inr (w2, q2)
            \<and> SyncRequestBuilder_call H b2 wc opc = Inr (w3, q3) \<longrightarrow>
            qb_session q1 = rb_session b1 \<and> qb_session q2 = rb_session b1
            \<and> qb_session q1 = qb_session q2
            \<and> qb_session q3 = rb_session b2
            \<and> qb_session q3 \<noteq> qb_session q1"
    using d by (auto simp: SyncRequestBuilder_call_eq split: sum.splits)
  show ?thesis
    by (intro conjI) (rule SyncRequestBuilder_call_eq d i j)+
qed

text \<open>
  On the builder of \<^verbatim>\<open>from_("t")\<close> all five operations return a builder over session 1,
  and an operation on the builder of the later \<^verbatim>\<open>table("u")\<close> does not.
\<close>

theorem operations_share_parent_session_witness:
  "valid_session heap0 (client_session client0)
   \<and> (store world1, builder1) \<in> set (table_operations SyncClient client0 heap0 ''t'' Country_model)
   \<and> rb_class builder1 = SyncRequestBuilder \<and> rb_class builder2 = SyncRequestBuilder
   \<and> rb_session builder1 = 1
   \<and> (\<exists>h2. (h2, builder2)
          \<in> set (table_operations SyncClient client0 (store world1) ''u'' Country_model))
   \<and> (\<exists>w' q. SyncRequestBuilder_call spec_helpers builder1 world1 (Select [''a''] None)
          = Inr (w', q) \<and> qb_session q = 1)
   \<and> (\<exists>w' q. SyncRequestBuilder_call spec_helpers builder1 world1
          (Insert (JObj []) None representation False) = Inr (w', q) \<and> qb_session q = 1)
   \<and> (\<exists>w' q. SyncRequestBuilder_call spec_helpers builder1 world1
          (Upsert (JObj []) None representation False) = Inr (w', q) \<and> qb_session q = 1)
   \<and> (\<exists>w' q. SyncRequestBuilder_call spec_helpers builder1 world1
          (Update (JObj []) None representation) = Inr (w', q) \<and> qb_session q = 1)
   \<and> (\<exists>w' q. SyncRequestBuilder_call spec_helpers builder1 world1 (Delete None representation)
          = Inr (w', q) \<and> qb_session q = 1)
   \<and> (\<exists>w' q. SyncRequestBuilder_call spec_helpers builder2 world1 (Delete None representation)
          = Inr (w', q) \<and> qb_session q \<noteq> 1)"
proof -
  let ?h2 = "fst (SyncPostgrestClient_table client0 (store world1) ''u'')"
  have i1: "(store world1, builder1)
              \<in> set (table_operations SyncClient client0 heap0 ''t'' Country_model)"
    by (simp add: table_operations_def world1_def builder1_def)
  have i2: "(?h2, builder2)
              \<in> set (table_operations SyncClient client0 (store world1) ''u'' Country_model)"
    by (simp add: table_operations_def builder2_def)
  have k1: "rb_class builder1 = SyncRequestBuilder" and s1: "rb_session builder1 = 1"
    by (simp_all add: builder1_eq)
  have k2: "rb_class builder2 = SyncRequestBuilder"
    by (simp add: builder2_def SyncPostgrestClient_table_def SyncPostgrestClient_from_def
        split: prod.splits)
  note th = operations_share_parent_session [OF valid_client0 i1 i2 k1 k2,
      where H = spec_helpers and w = world1]
  have one: "\<exists>w' q. SyncRequestBuilder_call spec_helpers builder1 world1 op1 = Inr (w', q)
                \<and> qb_session q = 1" for op1
  proof -
    obtain h' m b' where
      "helper_result spec_helpers (store world1) (rb_session builder1) op1 = Inr (h', m, b')"
      using spec_helper_result by blast
    with th [of op1, THEN conjunct1] s1 show ?thesis by simp
  qed
  have two: "\<exists>w' q. SyncRequestBuilder_call spec_helpers builder2 world1
                (Delete None representation) = Inr (w', q) \<and> qb_session q \<noteq> 1"
  proof -
    obtain h' m b' where
      "helper_result spec_helpers (store world1) (rb_session builder2)
         (Delete None representation) = Inr (h', m, b')"
      using spec_helper_result by blast
    with th [of "Delete None representation", THEN conjunct2, THEN conjunct1]
      th [of "Delete None representation", THEN conjunct2, THEN conjunct2, THEN conjunct2,
        THEN conjunct1] s1
    show ?thesis by simp
  qed
  from i2 have ex2: "\<exists>h2. (h2, builder2)
          \<in> set (table_operations SyncClient client0 (store world1) ''u'' Country_model)"
    by (rule exI)
  show ?thesis
    by (intro conjI) (rule valid_client0 i1 k1 k2 s1 ex2 one two)+
qed

subsection \<open>The classes of the returned builders\<close>

text \<open>
  Claim C7. Each operation returns a builder whenever its helper returns: select a
  \<^verbatim>\<open>SyncSelectRequestBuilder\<close>, update and delete a \<^verbatim>\<open>SyncFilterRequestBuilder\<close>,
  insert and upsert a plain \<^verbatim>\<open>SyncQueryRequestBuilder\<close>. Only the first two classes
  inherit a filter or select base class: their instances have the methods of that base
  class and \<^verbatim>\<open>execute\<close>. The only method of the builder that insert and upsert
  return is \<^verbatim>\<open>execute\<close>.
\<close>

theorem operation_result_classes:
  "SyncRequestBuilder_call H self w op1 =
     (case helper_result H (store w) (rb_session self) op1 of
        Inl e \<Rightarrow> Inl e
      | Inr (h', method, body') \<Rightarrow>
          Inr (w\<lparr>store := h'\<rparr>,
               \<lparr>qb_class =
                  (case op1 of
                     Select _ _ \<Rightarrow> SyncSelectRequestBuilder
                   | Insert _ _ _ _ \<Rightarrow> SyncQueryRequestBuilder
                   | Upsert _ _ _ _ \<Rightarrow> SyncQueryRequestBuilder
                   | Update _ _ _ \<Rightarrow> SyncFilterRequestBuilder
                   | Delete _ _ \<Rightarrow> SyncFilterRequestBuilder),
                qb_session = rb_session self, qb_path = rb_path self,
                qb_http_method = method, qb_json = body'\<rparr>))
   \<and> (SyncRequestBuilder_call H self w op1 = Inr (w1, q1) \<longrightarrow>
        qb_class q1 =
           (case op1 of
              Select _ _ \<Rightarrow> SyncSelectRequestBuilder
            | Insert _ _ _ _ \<Rightarrow> SyncQueryRequestBuilder
            | Upsert _ _ _ _ \<Rightarrow> SyncQueryRequestBuilder
            | Update _ _ _ \<Rightarrow> SyncFilterRequestBuilder
            | Delete _ _ \<Rightarrow> SyncFilterRequestBuilder)
        \<and> filterable (qb_class q1) =
           (case op1 of
              Select _ _ \<Rightarrow> True
            | Insert _ _ _ _ \<Rightarrow> False
            | Upsert _ _ _ _ \<Rightarrow> False
            | Update _ _ _ \<Rightarrow> True
            | Delete _ _ \<Rightarrow> True))
   \<and> filterable SyncSelectRequestBuilder
   \<and> filterable SyncFilterRequestBuilder
   \<and> \<not> filterable SyncQueryRequestBuilder
   \<and> methods F S SyncSelectRequestBuilder = set S \<union> {''execute''}
   \<and> methods F S SyncFilterRequestBuilder = set F \<union> {''execute''}
   \<and> methods F S SyncQueryRequestBuilder = {''execute''}"
proof -
  have a: "SyncRequestBuilder_call H self w op1 =
     (case helper_result H (store w) (rb_session self) op1 of
        Inl e \<Rightarrow> Inl e
      | Inr (h', method, body') \<Rightarrow>
          Inr (w\<lparr>store := h'\<rparr>,
               \<lparr>qb_class =
                  (case op1 of
                     Select _ _ \<Rightarrow> SyncSelectRequestBuilder
                   | Insert _ _ _ _ \<Rightarrow> SyncQueryRequestBuilder
                   | Upsert _ _ _ _ \<Rightarrow> SyncQueryRequestBuilder
                   | Update _ _ _ \<Rightarrow> SyncFilterRequestBuilder
                   | Delete _ _ \<Rightarrow> SyncFilterRequestBuilder),
                qb_session = rb_session self, qb_path = rb_path self,
                qb_http_method = method, qb_json = body'\<rparr>))"
    by (cases op1)
       (auto simp: SyncRequestBuilder_select_def SyncRequestBuilder_insert_def
          SyncRequestBuilder_upsert_def SyncRequestBuilder_update_def
          SyncRequestBuilder_delete_def split: sum.splits)
  have b: "SyncRequestBuilder_call H self w op1 = Inr (w1, q1) \<longrightarrow>
        qb_class q1 =
           (case op1 of
              Select _ _ \<Rightarrow> SyncSelectRequestBuilder
            | Insert _ _ _ _ \<Rightarrow> SyncQueryRequestBuilder
            | Upsert _ _ _ _ \<Rightarrow> SyncQueryRequestBuilder
            | Update _ _ _ \<Rightarrow> SyncFilterRequestBuilder
            | Delete _ _ \<Rightarrow> SyncFilterRequestBuilder)
        \<and> filterable (qb_class q1) =
           (case op1 of
              Select _ _ \<Rightarrow> True
            | Insert _ _ _ _ \<Rightarrow> False
            | Upsert _ _ _ _ \<Rightarrow> False
            | Update _ _ _ \<Rightarrow> True
            | Delete _ _ \<Rightarrow> True)"
    by (cases op1)
       (auto simp: SyncRequestBuilder_call_eq filterable_def ancestors_def split: sum.splits)
  have f: "filterable SyncSelectRequestBuilder" "filterable SyncFilterRequestBuilder"
    "\<not> filterable SyncQueryRequestBuilder"
    by (simp_all add: filterable_def ancestors_def)
  have m: "methods F S SyncSelectRequestBuilder = set S \<union> {''execute''}"
    "methods F S SyncFilterRequestBuilder = set F \<union> {''execute''}"
    "methods F S SyncQueryRequestBuilder = {''execute''}"
    by (auto simp: methods_def ancestors_def)
  show ?thesis
    by (intro conjI) (rule a b f m)+
qed

text \<open>All five operations on the builder of \<^verbatim>\<open>from_("t")\<close>.\<close>

theorem operation_result_classes_witness:
  "(\<exists>w' q. SyncRequestBuilder_call spec_helpers builder1 world1 (Select [''a''] None)
        = Inr (w', q) \<and> qb_class q = SyncSelectRequestBuilder \<and> filterable (qb_class q))
   \<and> (\<exists>w' q. SyncRequestBuilder_call spec_helpers builder1 world1
        (Update (JObj []) None representation) = Inr (w', q)
        \<and> qb_class q = SyncFilterRequestBuilder \<and> filterable (qb_class q))
   \<and> (\<exists>w' q. SyncRequestBuilder_call spec_helpers builder1 world1 (Delete None representation)
        = Inr (w', q) \<and> qb_class q = SyncFilterRequestBuilder \<and> filterable (qb_class q))
   \<and> (\<exists>w' q. SyncRequestBuilder_call spec_helpers builder1 world1
        (Insert (JObj []) None representation False) = Inr (w', q)
        \<and> qb_class q = SyncQueryRequestBuilder \<and> \<not> filterable (qb_class q))
   \<and> (\<exists>w' q. SyncRequestBuilder_call spec_helpers builder1 world1
        (Upsert (JObj []) None representation False) = Inr (w', q)
        \<and> qb_class q = SyncQueryRequestBuilder \<and> \<not> filterable (qb_class q))
   \<and> methods [''eq'', ''order''] [''limit''] SyncQueryRequestBuilder = {''execute''}"
proof -
  note th = operation_result_classes [where H = spec_helpers and self = builder1 and w = world1
      and F = "[''eq'', ''order'']" and S = "[''limit'']"]
  have r: "\<exists>w' q. SyncRequestBuilder_call spec_helpers builder1 world1 op1 = Inr (w', q)
             \<and> qb_class q = returned_class op1
             \<and> filterable (qb_class q) = filterable (returned_class op1)" for op1
  proof -
    obtain h' m b' where
      "helper_result spec_helpers (store world1) (rb_session builder1) op1 = Inr (h', m, b')"
      using spec_helper_result by blast
    with th [of op1, THEN conjunct1] show ?thesis
      by (cases op1) simp_all
  qed
  note f = th [of "Select [] None", THEN conjunct2, THEN conjunct2]
  have s: "\<exists>w' q. SyncRequestBuilder_call spec_helpers builder1 world1 (Select [''a''] None)
        = Inr (w', q) \<and> qb_class q = SyncSelectRequestBuilder \<and> filterable (qb_class q)"
    using r [of "Select [''a''] None"] f by auto
  have u: "\<exists>w' q. SyncRequestBuilder_call spec_helpers builder1 world1
        (Update (JObj []) None representation) = Inr (w', q)
        \<and> qb_class q = SyncFilterRequestBuilder \<and> filterable (qb_class q)"
    using r [of "Update (JObj []) None representation"] f by auto
  have d: "\<exists>w' q. SyncRequestBuilder_call spec_helpers builder1 world1 (Delete None representation)
        = Inr (w', q) \<and> qb_class q = SyncFilterRequestBuilder \<and> filterable (qb_class q)"
    using r [of "Delete None representation"] f by auto
  have i: "\<exists>w' q. SyncRequestBuilder_call spec_helpers builder1 world1
        (Insert (JObj []) None representation False) = Inr (w', q)
        \<and> qb_class q = SyncQueryRequestBuilder \<and> \<not> filterable (qb_class q)"
    using r [of "Insert (JObj []) None representation False"] f by auto
  have p: "\<exists>w' q. SyncRequestBuilder_call spec_helpers builder1 world1
        (Upsert (JObj []) None representation False) = Inr (w', q)
        \<and> qb_class q = SyncQueryRequestBuilder \<and> \<not> filterable (qb_class q)"
    using r [of "Upsert (JObj []) None representation False"] f by auto
  from f have m: "methods [''eq'', ''order''] [''limit''] SyncQueryRequestBuilder = {''execute''}"
    by simp
  show ?thesis
    by (intro conjI) (rule s u d i p m)+
qed

section \<open>Properties of \<^verbatim>\<open>execute\<close>\<close>

subsection \<open>One request, then the classification of the response\<close>

text \<open>
  \<^verbatim>\<open>execute\<close> hands one request to the transport and changes nothing else in the
  world. An exception of the transport passes through. A \<^verbatim>\<open>ValueError\<close> of the
  classifier becomes an \<^verbatim>\<open>APIError\<close> built from \<^verbatim>\<open>r.json()\<close> when the body is JSON,
  and the decoding error of \<^verbatim>\<open>r.json()\<close> when it is not.
\<close>

lemma untyped_execute_eq:
  "SyncQueryRequestBuilder_execute tr fr self w model =
     (w\<lparr>sent := sent w @ [request_of self w]\<rparr>,
      case tr (sent w) (request_of self w) of
        Inl e \<Rightarrow> Inl e
      | Inr r \<Rightarrow>
          (case fr model r of
             Inr a \<Rightarrow> Inr a
           | Inl e \<Rightarrow>
               if is_ValueError e then
                 (case decoded r of None \<Rightarrow> Inl JSONDecodeError | Some j \<Rightarrow> Inl (APIError j))
               else Inl e))"
  by (simp add: SyncQueryRequestBuilder_execute_def session_request_def request_of_def Let_def
      response_json_def split: sum.splits option.splits)

lemma typed_execute_eq:
  "SyncModelQueryRequestBuilder_execute tr fr self w =
     (w\<lparr>sent := sent w @ [request_of self w]\<rparr>,
      case tr (sent w) (request_of self w) of
        Inl e \<Rightarrow> Inl e
      | Inr r \<Rightarrow>
          (case fr (TypeVar ''_T'' BaseModel) r of
             Inr a \<Rightarrow> Inr a
           | Inl e \<Rightarrow>
               if is_ValueError e then
                 (case decoded r of None \<Rightarrow> Inl JSONDecodeError | Some j \<Rightarrow> Inl (APIError j))
               else Inl e))"
  by (simp add: SyncModelQueryRequestBuilder_execute_def session_request_def request_of_def
      Let_def response_json_def split: sum.splits option.splits)

text \<open>
  The typed \<^verbatim>\<open>execute\<close> is the untyped one with the type variable as its model, as the
  comment in its body says (\<^verbatim>\<open>super().execute(model=_T)\<close>): the row type of the builder
  does not occur in it.
\<close>

lemma typed_execute_is_untyped_at_type_variable:
  "SyncModelQueryRequestBuilder_execute tr fr self w =
     SyncQueryRequestBuilder_execute tr fr self w (TypeVar ''_T'' BaseModel)"
  by (simp add: untyped_execute_eq typed_execute_eq)

lemma request_of_sent: "request_of self (w\<lparr>sent := xs\<rparr>) = request_of self w"
  by (simp add: request_of_def)

subsection \<open>Calling \<^verbatim>\<open>execute\<close> twice\<close>

text \<open>
  Claim C5. \<^verbatim>\<open>execute\<close> is not rejected the second time and keeps nothing from the
  first call: it reads the four fields of the builder and assigns none, and the world it
  leaves differs from the one it found only by the request it sent. A second
  \<^verbatim>\<open>execute\<close> on the same builder therefore sends a request equal to the first,
  whatever the transport answered. The same holds for the typed builder.
\<close>

theorem execute_reissues_identical_request:
  "fst (SyncQueryRequestBuilder_execute tr fr self w model) =
     w\<lparr>sent := sent w @ [request_of self w]\<rparr>
   \<and> fst (SyncQueryRequestBuilder_execute tr' fr' self
            (fst (SyncQueryRequestBuilder_execute tr fr self w model)) model') =
       w\<lparr>sent := sent w @ [request_of self w, request_of self w]\<rparr>
   \<and> fst (SyncModelQueryRequestBuilder_execute tr fr self w) =
       w\<lparr>sent := sent w @ [request_of self w]\<rparr>
   \<and> fst (SyncModelQueryRequestBuilder_execute tr' fr' self
            (fst (SyncModelQueryRequestBuilder_execute tr fr self w))) =
       w\<lparr>sent := sent w @ [request_of self w, request_of self w]\<rparr>"
  by (simp add: untyped_execute_eq typed_execute_eq request_of_sent)

theorem execute_reissues_identical_request_witness:
  "sent (fst (SyncQueryRequestBuilder_execute (\<lambda>cs c. Inr resp_ok) from_http_request_response
           select_builder
           (fst (SyncQueryRequestBuilder_execute (\<lambda>cs c. Inr resp_ok)
                   from_http_request_response select_builder world2 DictStrAny))
           DictStrAny)) =
     [request_of select_builder world2, request_of select_builder world2]
   \<and> store (fst (SyncQueryRequestBuilder_execute (\<lambda>cs c. Inr resp_ok)
                   from_http_request_response select_builder world2 DictStrAny)) = store world2"
proof -
  note t = execute_reissues_identical_request
    [of "\<lambda>cs c. Inr resp_ok" from_http_request_response select_builder world2 DictStrAny
      "\<lambda>cs c. Inr resp_ok" from_http_request_response DictStrAny]
  from t have a: "fst (SyncQueryRequestBuilder_execute (\<lambda>cs c. Inr resp_ok)
                   from_http_request_response select_builder world2 DictStrAny) =
       world2\<lparr>sent := sent world2 @ [request_of select_builder world2]\<rparr>"
    by (rule conjunct1)
  from t have b: "fst (SyncQueryRequestBuilder_execute (\<lambda>cs c. Inr resp_ok)
           from_http_request_response select_builder
           (fst (SyncQueryRequestBuilder_execute (\<lambda>cs c. Inr resp_ok)
                   from_http_request_response select_builder world2 DictStrAny))
           DictStrAny) =
       world2\<lparr>sent := sent world2 @
          [request_of select_builder world2, request_of select_builder world2]\<rparr>"
    by (rule conjunct2 [THEN conjunct1])
  show ?thesis
    by (simp only: b) (simp add: a sent_world2)
qed

subsection \<open>Error responses\<close>

text \<open>
  When the transport answers with a response and the classifier raises a
  \<^verbatim>\<open>ValueError\<close> (a JSON decoding error and a validation error are such), the handler
  of \<^verbatim>\<open>execute\<close> runs \<^verbatim>\<open>raise APIError(r.json())\<close>: an \<^verbatim>\<open>APIError\<close> built from the
  decoded body if the body is JSON, and the decoding error of \<^verbatim>\<open>r.json()\<close> itself
  otherwise. With the classifier of the spec the handler runs for every response whose
  body is not JSON or whose status is 400 or more. For a JSON object, the message,
  details, hint and code of the error are the entries of these names in the body, null
  where there is none. The typed \<^verbatim>\<open>execute\<close> behaves the same way.
\<close>

theorem execute_raises_api_error_from_json_body:
  assumes "tr (sent w) (request_of self w) = Inr r"
  shows "(fr model r = Inl e \<and> is_ValueError e \<longrightarrow>
            snd (SyncQueryRequestBuilder_execute tr fr self w model) =
              (case decoded r of None \<Rightarrow> Inl JSONDecodeError | Some j \<Rightarrow> Inl (APIError j)))
       \<and> (fr (TypeVar ''_T'' BaseModel) r = Inl e \<and> is_ValueError e \<longrightarrow>
            snd (SyncModelQueryRequestBuilder_execute tr fr self w) =
              (case decoded r of None \<Rightarrow> Inl JSONDecodeError | Some j \<Rightarrow> Inl (APIError j)))
       \<and> (decoded r = None \<or> 400 \<le> status_code r \<longrightarrow>
            snd (SyncQueryRequestBuilder_execute tr from_http_request_response self w model) =
              (case decoded r of None \<Rightarrow> Inl JSONDecodeError | Some j \<Rightarrow> Inl (APIError j))
          \<and> snd (SyncModelQueryRequestBuilder_execute tr from_http_request_response self w) =
              (case decoded r of None \<Rightarrow> Inl JSONDecodeError | Some j \<Rightarrow> Inl (APIError j)))
       \<and> (decoded r = Some (JObj kvs) \<and> 400 \<le> status_code r \<longrightarrow>
            snd (SyncQueryRequestBuilder_execute tr from_http_request_response self w model) =
              Inl (APIError (JObj kvs))
          \<and> message (JObj kvs) = (case map_of kvs ''message'' of Some v \<Rightarrow> v | None \<Rightarrow> JNull)
          \<and> details (JObj kvs) = (case map_of kvs ''details'' of Some v \<Rightarrow> v | None \<Rightarrow> JNull)
          \<and> hint (JObj kvs) = (case map_of kvs ''hint'' of Some v \<Rightarrow> v | None \<Rightarrow> JNull)
          \<and> code (JObj kvs) = (case map_of kvs ''code'' of Some v \<Rightarrow> v | None \<Rightarrow> JNull))"
proof -
  have c1: "fr model r = Inl e \<and> is_ValueError e \<longrightarrow>
            snd (SyncQueryRequestBuilder_execute tr fr self w model) =
              (case decoded r of None \<Rightarrow> Inl JSONDecodeError | Some j \<Rightarrow> Inl (APIError j))"
    using assms by (simp add: untyped_execute_eq)
  have c2: "fr (TypeVar ''_T'' BaseModel) r = Inl e \<and> is_ValueError e \<longrightarrow>
            snd (SyncModelQueryRequestBuilder_execute tr fr self w) =
              (case decoded r of None \<Rightarrow> Inl JSONDecodeError | Some j \<Rightarrow> Inl (APIError j))"
    using assms by (simp add: typed_execute_eq)
  have c3: "decoded r = None \<or> 400 \<le> status_code r \<longrightarrow>
            snd (SyncQueryRequestBuilder_execute tr from_http_request_response self w model) =
              (case decoded r of None \<Rightarrow> Inl JSONDecodeError | Some j \<Rightarrow> Inl (APIError j))
          \<and> snd (SyncModelQueryRequestBuilder_execute tr from_http_request_response self w) =
              (case decoded r of None \<Rightarrow> Inl JSONDecodeError | Some j \<Rightarrow> Inl (APIError j))"
    using assms
    by (auto simp: untyped_execute_eq typed_execute_eq from_http_request_response_def
        split: option.splits)
  have c4: "decoded r = Some (JObj kvs) \<and> 400 \<le> status_code r \<longrightarrow>
            snd (SyncQueryRequestBuilder_execute tr from_http_request_response self w model) =
              Inl (APIError (JObj kvs))
          \<and> message (JObj kvs) = (case map_of kvs ''message'' of Some v \<Rightarrow> v | None \<Rightarrow> JNull)
          \<and> details (JObj kvs) = (case map_of kvs ''details'' of Some v \<Rightarrow> v | None \<Rightarrow> JNull)
          \<and> hint (JObj kvs) = (case map_of kvs ''hint'' of Some v \<Rightarrow> v | None \<Rightarrow> JNull)
          \<and> code (JObj kvs) = (case map_of kvs ''code'' of Some v \<Rightarrow> v | None \<Rightarrow> JNull)"
    using assms
    by (simp add: untyped_execute_eq from_http_request_response_def message_def details_def
        hint_def code_def error_field_def)
  from c1 c2 c3 c4 show ?thesis by (intro conjI)
qed

text \<open>
  Status 404 with the body \<^verbatim>\<open>{"message":"not found"}\<close> gives an \<^verbatim>\<open>APIError\<close> whose
  message is \<^verbatim>\<open>not found\<close>.
\<close>

theorem execute_raises_api_error_from_json_body_witness:
  "from_http_request_response DictStrAny not_found = Inl (ValueError ''error status'')
   \<and> is_ValueError (ValueError ''error status'')
   \<and> decoded not_found = Some (JObj [(''message'', JStr ''not found'')])
   \<and> 400 \<le> status_code not_found
   \<and> snd (SyncQueryRequestBuilder_execute (\<lambda>cs c. Inr not_found) from_http_request_response
         select_builder world2 DictStrAny) =
       Inl (APIError (JObj [(''message'', JStr ''not found'')]))
   \<and> message (JObj [(''message'', JStr ''not found'')]) = JStr ''not found''"
proof -
  have d: "decoded not_found = Some (JObj [(''message'', JStr ''not found'')])"
    and s: "400 \<le> status_code not_found"
    by (simp_all add: not_found_def)
  have f: "from_http_request_response DictStrAny not_found = Inl (ValueError ''error status'')"
    by (simp add: from_http_request_response_def not_found_def)
  have v: "is_ValueError (ValueError ''error status'')"
    by simp
  have t: "(\<lambda>cs c. Inr not_found) (sent world2) (request_of select_builder world2) = Inr not_found"
    by simp
  note th = execute_raises_api_error_from_json_body
      [of "\<lambda>cs c. Inr not_found" world2 select_builder not_found from_http_request_response
        DictStrAny "ValueError ''error status''" "[(''message'', JStr ''not found'')]", OF t]
  from th d s have
    "snd (SyncQueryRequestBuilder_execute (\<lambda>cs c. Inr not_found) from_http_request_response
         select_builder world2 DictStrAny) =
       Inl (APIError (JObj [(''message'', JStr ''not found'')]))
     \<and> message (JObj [(''message'', JStr ''not found'')]) = JStr ''not found''"
    by simp
  with f v d s show ?thesis by (intro conjI) simp_all
qed

subsection \<open>The typed builders at work\<close>

lemma typed_insert_on_model_builder:
  "SyncModelRequestBuilder_insert pre_insert model_builder model_world
       (JObj [(''name'', JStr ''x'')]) None representation False =
     Inr (model_world2, typed_insert_builder)"
  by (simp add: SyncModelRequestBuilder_insert_def SyncModelQueryRequestBuilder_init_def
      pre_insert_def prefer_header_def model_builder_def
      model_world_def model_world2_def typed_insert_builder_def
      SyncPostgrestClient_from_model_def Sync_pre_table_op_eq heap0_def client0_def
      Country_model_def table_name_of_def set_header_def headers_of_def)

lemma untyped_insert_on_countries:
  "SyncRequestBuilder_insert pre_insert
       (snd (SyncPostgrestClient_from client0 heap0 ''countries''))
       \<lparr>store = fst (SyncPostgrestClient_from client0 heap0 ''countries''), sent = []\<rparr>
       (JObj [(''name'', JStr ''x'')]) None representation False =
     Inr (model_world2, untyped_insert_builder)"
  by (simp add: SyncRequestBuilder_insert_def pre_insert_def prefer_header_def
      model_world2_def untyped_insert_builder_def
      SyncPostgrestClient_from_def Sync_pre_table_op_eq heap0_def client0_def
      set_header_def headers_of_def)

text \<open>
  The typed select, update and delete never return a builder: when the helper has
  returned, the initialiser of the typed select or filter builder raises
  \<^verbatim>\<open>TypeError\<close>. Typed builders come from insert and upsert only.
\<close>

lemma typed_select_update_delete_raise:
  "isl (SyncModelRequestBuilder_select ps self w columns cm)"
  "isl (SyncModelRequestBuilder_update pu self w body cm rm)"
  "isl (SyncModelRequestBuilder_delete pd self w cm rm)"
  "ps (store w) (rb_session self) columns cm = Inr y \<Longrightarrow>
     SyncModelRequestBuilder_select ps self w columns cm = Inl TypeError"
  by (auto simp: SyncModelRequestBuilder_select_def SyncModelRequestBuilder_update_def
      SyncModelRequestBuilder_delete_def SyncModelSelectRequestBuilder_init_def
      SyncModelFilterRequestBuilder_init_def split: sum.splits)

text \<open>
  Claim C2 does not hold of the code on a body that is not JSON. For a response with
  status 500 and the body \<^verbatim>\<open>Internal Server Error\<close>, the claim asks for an
  \<^verbatim>\<open>APIError\<close> that carries the status and the body text. The handler sets out to
  raise an \<^verbatim>\<open>APIError\<close>, but decodes the body a second time to build it:
  \<^verbatim>\<open>r.json()\<close> raises, and that decoding error is what the caller gets, from the untyped
  and from the typed \<^verbatim>\<open>execute\<close>.
\<close>

theorem malformed_error_body_is_hard_failure:
  "snd (SyncQueryRequestBuilder_execute (\<lambda>cs c. Inr server_error) from_http_request_response
         select_builder world2 DictStrAny) = Inl JSONDecodeError
   \<and> snd (SyncModelQueryRequestBuilder_execute (\<lambda>cs c. Inr server_error)
         from_http_request_response typed_insert_builder model_world2) = Inl JSONDecodeError
   \<and> decoded server_error = None
   \<and> status_code server_error = 500"
  by (simp add: untyped_execute_eq typed_execute_eq from_http_request_response_def
      server_error_def)

subsection \<open>The typed and the untyped path\<close>

text \<open>
  Claim C4 does not hold of the code. \<^verbatim>\<open>client.from_model(Country).insert({"name":
  "x"})\<close> and \<^verbatim>\<open>client.from_("countries").insert({"name": "x"})\<close> give builders with the
  same session, path, method and body, and both \<^verbatim>\<open>execute\<close> methods send the same
  request. The response is \<^verbatim>\<open>[{"name":"x"}]\<close> with status 201; its row lacks the field
  \<^verbatim>\<open>id\<close> of \<^verbatim>\<open>Country\<close>. The untyped \<^verbatim>\<open>execute(model=Country)\<close> fails the validation
  of the row and raises an \<^verbatim>\<open>APIError\<close>, and \<^verbatim>\<open>execute(model=Name)\<close>, for a model with
  the one field \<^verbatim>\<open>name\<close>, returns. The typed \<^verbatim>\<open>execute\<close> classifies with the type
  variable \<^verbatim>\<open>_T\<close>, whatever the row type of the builder: for \<^verbatim>\<open>Country\<close> it returns
  where the untyped path raises.
\<close>

theorem typed_execute_ignores_row_type:
  "SyncModelRequestBuilder_insert pre_insert model_builder model_world
       (JObj [(''name'', JStr ''x'')]) None representation False =
     Inr (model_world2, typed_insert_builder)
   \<and> SyncRequestBuilder_insert pre_insert
       (snd (SyncPostgrestClient_from client0 heap0 ''countries''))
       \<lparr>store = fst (SyncPostgrestClient_from client0 heap0 ''countries''), sent = []\<rparr>
       (JObj [(''name'', JStr ''x'')]) None representation False =
     Inr (model_world2, untyped_insert_builder)
   \<and> request_of typed_insert_builder model_world2 = request_of untyped_insert_builder model_world2
   \<and> \<not> isl (snd (SyncModelQueryRequestBuilder_execute (\<lambda>cs c. Inr row_without_id)
         from_http_request_response typed_insert_builder model_world2))
   \<and> snd (SyncQueryRequestBuilder_execute (\<lambda>cs c. Inr row_without_id)
         from_http_request_response untyped_insert_builder model_world2 (Model Country_model)) =
       Inl (APIError (JArr [JObj [(''name'', JStr ''x'')]]))
   \<and> \<not> isl (snd (SyncQueryRequestBuilder_execute (\<lambda>cs c. Inr row_without_id)
         from_http_request_response untyped_insert_builder model_world2 (Model Name_model)))"
proof -
  have a: "request_of typed_insert_builder model_world2 =
          request_of untyped_insert_builder model_world2"
    by (simp add: request_of_def typed_insert_builder_def untyped_insert_builder_def)
  have b: "\<not> isl (snd (SyncModelQueryRequestBuilder_execute (\<lambda>cs c. Inr row_without_id)
         from_http_request_response typed_insert_builder model_world2))"
    by (simp add: typed_execute_eq from_http_request_response_def row_without_id_def
        fields_present_def BaseModel_def)
  have c: "snd (SyncQueryRequestBuilder_execute (\<lambda>cs c. Inr row_without_id)
         from_http_request_response untyped_insert_builder model_world2 (Model Country_model)) =
       Inl (APIError (JArr [JObj [(''name'', JStr ''x'')]]))"
    by (simp add: untyped_execute_eq from_http_request_response_def row_without_id_def
        fields_present_def Country_model_def)
  have d: "\<not> isl (snd (SyncQueryRequestBuilder_execute (\<lambda>cs c. Inr row_without_id)
         from_http_request_response untyped_insert_builder model_world2 (Model Name_model)))"
    by (simp add: untyped_execute_eq from_http_request_response_def row_without_id_def
        fields_present_def Name_model_def)
  show ?thesis
    by (intro conjI)
       (rule typed_insert_on_model_builder untyped_insert_on_countries a b c d)+
qed

end
